theory Spec2Isabelle
  imports Main "HOL-Library.Word" "HOL-Library.Sublist"
begin

text \<open>
  The DigitalOcean provider of the DNS controller: the client of the remote service
  (\<open>client.go\<close>: paginated listing, create, update and delete of records, the TTL
  floor) and the handler that enumerates zones, reads a zone's state and executes change
  requests through a zone cache. Functions are translated from the Go source; state
  (metrics, rate limiter, requests sent to the service, the cache) is passed explicitly,
  and a function that may loop forever returns an \<open>option\<close>.
\<close>

section \<open>Go values used by the DigitalOcean provider\<close>

text \<open>
  Go's \<open>int\<close> and \<open>int64\<close> are both 64-bit two's complement integers on the 64-bit
  targets the controller is built for: \<open>+\<close> wraps, comparisons are signed
  (\<open><s\<close>), and the conversion \<open>int(ttl)\<close> of an \<open>int64\<close> is the identity.
\<close>

type_synonym go_int = "64 word"
type_synonym go_int64 = "64 word"

subsection \<open>Errors\<close>

text \<open>
  A Go \<open>error\<close> is a value; \<open>nil\<close> is \<open>None\<close> of \<open>error option\<close>, and a
  \<open>(value, error)\<close> result is \<open>error + value\<close> with \<open>Inl\<close> the error.
  \<open>fmt.Errorf\<close> is kept with its format string and its arguments in order;
  \<open>ErrorString\<close> is an error of another package (the remote service's client, the
  configuration) known by its message; \<open>NumError\<close> is \<open>*strconv.NumError\<close>.
\<close>

datatype num_error = ErrSyntax | ErrRange

datatype error =
    ErrorString string
  | NumError string string num_error
  | Errorf string "fmt_arg list"
and fmt_arg =
    Str string
  | Err error

text \<open>
  \<open>fmt.Sprintf\<close> for the two verbs the provider uses, \<open>%q\<close> and \<open>%s\<close>, over
  arguments given by their text. \<open>%q\<close> prints \<open>strconv.Quote\<close> of the argument;
  the quoting function \<open>q\<close> is a parameter, so that nothing proved here depends on
  how Go escapes a string. A verb with no argument left prints Go's \<open>MISSING\<close> marker.
\<close>

fun Sprintf :: "(string \<Rightarrow> string) \<Rightarrow> string \<Rightarrow> string list \<Rightarrow> string" where
  "Sprintf q [] args = []"
| "Sprintf q [c] args = [c]"
| "Sprintf q (c # v # fmt) args =
     (if c = CHR ''%'' \<and> v = CHR ''q'' then
        (case args of
           a # rest \<Rightarrow> q a @ Sprintf q fmt rest
         | [] \<Rightarrow> ''%!q(MISSING)'' @ Sprintf q fmt [])
      else if c = CHR ''%'' \<and> v = CHR ''s'' then
        (case args of
           a # rest \<Rightarrow> a @ Sprintf q fmt rest
         | [] \<Rightarrow> ''%!s(MISSING)'' @ Sprintf q fmt [])
      else c # Sprintf q (v # fmt) args)"

fun num_error_text :: "num_error \<Rightarrow> string" where
  "num_error_text ErrSyntax = ''invalid syntax''"
| "num_error_text ErrRange = ''value out of range''"

text \<open>The method \<open>Error()\<close> of an error: its message.\<close>

fun Error :: "(string \<Rightarrow> string) \<Rightarrow> error \<Rightarrow> string"
  and arg_text :: "(string \<Rightarrow> string) \<Rightarrow> fmt_arg \<Rightarrow> string" where
  "Error q (ErrorString m) = m"
| "Error q (NumError f n k) = ''strconv.'' @ f @ '': parsing '' @ q n @ '': '' @ num_error_text k"
| "Error q (Errorf fmt args) = Sprintf q fmt (map (arg_text q) args)"
| "arg_text q (Str s) = s"
| "arg_text q (Err e) = Error q e"

subsection \<open>strconv.Atoi and strconv.Itoa\<close>

text \<open>
  \<open>strconv.Atoi(s)\<close> is \<open>ParseInt(s, 10, 0)\<close> with the error's function name
  replaced (its fast path for short strings gives the same results): an optional sign,
  then at least one decimal digit and nothing else; a value outside the 64-bit range is
  \<open>ErrRange\<close>. \<open>ParseUint_digits\<close> is the digit loop of \<open>ParseUint\<close> in base 10
  with its two overflow checks.
\<close>

definition is_digit :: "char \<Rightarrow> bool" where
  "is_digit c = (48 \<le> (of_char c :: int) \<and> (of_char c :: int) \<le> 57)"

definition maxUint64 :: int where
  "maxUint64 = 2 ^ 64 - 1"

fun ParseUint_digits :: "string \<Rightarrow> int \<Rightarrow> num_error + int" where
  "ParseUint_digits [] n = Inr n"
| "ParseUint_digits (c # cs) n =
     (if \<not> is_digit c then Inl ErrSyntax
      else if n \<ge> maxUint64 div 10 + 1 then Inl ErrRange
      else if n * 10 + (of_char c - 48) > maxUint64 then Inl ErrRange
      else ParseUint_digits cs (n * 10 + (of_char c - 48)))"

definition ParseUint :: "string \<Rightarrow> num_error + int" where
  "ParseUint s = (if s = [] then Inl ErrSyntax else ParseUint_digits s 0)"

definition ParseInt :: "string \<Rightarrow> num_error + int" where
  "ParseInt s =
     (case s of
        [] \<Rightarrow> Inl ErrSyntax
      | c # cs \<Rightarrow>
          (case ParseUint (if c = CHR ''+'' \<or> c = CHR ''-'' then cs else s) of
             Inl e \<Rightarrow> Inl e
           | Inr un \<Rightarrow>
               if c \<noteq> CHR ''-'' \<and> un \<ge> 2 ^ 63 then Inl ErrRange
               else if c = CHR ''-'' \<and> un > 2 ^ 63 then Inl ErrRange
               else Inr (if c = CHR ''-'' then - un else un)))"

definition Atoi :: "string \<Rightarrow> error + go_int" where
  "Atoi s =
     (case ParseInt s of
        Inl k \<Rightarrow> Inl (NumError ''Atoi'' s k)
      | Inr n \<Rightarrow> Inr (word_of_int n))"

fun FormatUint :: "nat \<Rightarrow> string" where
  "FormatUint n =
     (if n < 10 then [''0123456789'' ! n]
      else FormatUint (n div 10) @ [''0123456789'' ! (n mod 10)])"

definition Itoa :: "go_int \<Rightarrow> string" where
  "Itoa i = (if i <s 0 then CHR ''-'' # FormatUint (nat (- sint i)) else FormatUint (nat (sint i)))"

section \<open>The remote service (package godo)\<close>

text \<open>
  The types of the DigitalOcean client library the provider reads and writes, with the
  fields it uses. A response's \<open>Links\<close> is given by what its two methods return:
  \<open>IsLastPage()\<close> and \<open>CurrentPage()\<close> (which can fail).
\<close>

record ListOptions =
  Page :: go_int
  PerPage :: go_int

record Links =
  IsLastPage :: bool
  CurrentPage :: "error + go_int"

record Domain =
  Name :: string

record DomainRecord =
  ID :: go_int
  Type :: string
  Name :: string
  Data :: string
  TTL :: go_int

record DomainRecordEditRequest =
  Type :: string
  Name :: string
  Data :: string
  TTL :: go_int

text \<open>
  \<open>godo.DomainsService\<close>: what the remote service answers to each request. A list
  request answers an error, or a page of items with the response's \<open>Links\<close>
  (\<open>None\<close> when \<open>resp.Links\<close> is nil). The answers are functions of the request:
  the content of the service does not change during the calls considered, and the
  requests the client sends are recorded in the \<open>world\<close> below.
\<close>

record DomainsService =
  svc_List :: "ListOptions \<Rightarrow> error + (Domain list \<times> Links option)"
  svc_Records :: "string \<Rightarrow> ListOptions \<Rightarrow> error + (DomainRecord list \<times> Links option)"
  svc_CreateRecord :: "string \<Rightarrow> DomainRecordEditRequest \<Rightarrow> error option"
  svc_EditRecord :: "string \<Rightarrow> go_int \<Rightarrow> DomainRecordEditRequest \<Rightarrow> error option"
  svc_DeleteRecord :: "string \<Rightarrow> go_int \<Rightarrow> error option"

section \<open>Effects: metrics, rate limiter, remote calls\<close>

text \<open>
  The injected metrics sink and rate limiter, and the remote service, are observed
  through what the client does to them: every \<open>metrics.AddRequests(kind, n)\<close>, every
  \<open>rateLimiter.Accept()\<close> and every request sent to the service is recorded, in order.
\<close>

datatype request_type =
  M_LISTZONES | M_LISTRECORDS | M_CREATERECORDS | M_UPDATERECORDS | M_DELETERECORDS

datatype remote_call =
    CallList ListOptions
  | CallRecords string ListOptions
  | CallCreateRecord string DomainRecordEditRequest
  | CallEditRecord string go_int DomainRecordEditRequest
  | CallDeleteRecord string go_int

record world =
  requests :: "(request_type \<times> int) list"
  accepts :: nat
  calls :: "remote_call list"

definition AddRequests :: "request_type \<Rightarrow> int \<Rightarrow> world \<Rightarrow> world" where
  "AddRequests kind n w = w\<lparr>requests := requests w @ [(kind, n)]\<rparr>"

definition Accept :: "world \<Rightarrow> world" where
  "Accept w = w\<lparr>accepts := Suc (accepts w)\<rparr>"

definition remote :: "remote_call \<Rightarrow> world \<Rightarrow> world" where
  "remote c w = w\<lparr>calls := calls w @ [c]\<rparr>"

section \<open>The canonical record\<close>

text \<open>
  Modelled from the spec: the provider's \<open>Record\<close> type and \<open>toRecord\<close> are not
  among the sources. The spec's Record has a zone reference, DNS name, type, value, TTL
  and provider-assigned identifier; the client reads it through the getters of
  \<open>raw.Record\<close> and the field \<open>domain\<close>. \<open>toRecord\<close> is the spec's normalizer:
  a pure mapping of the provider record that attaches the owning zone's key. The
  identifier is the provider's integer id in decimal, the form \<open>UpdateRecord\<close> and
  \<open>DeleteRecord\<close> parse back.
\<close>

record Record =
  GetType :: string
  GetId :: string
  GetDNSName :: string
  GetValue :: string
  GetTTL :: go_int
  domain :: string

definition toRecord :: "DomainRecord \<Rightarrow> string \<Rightarrow> Record" where
  "toRecord r key =
     \<lparr>GetType = DomainRecord.Type r, GetId = Itoa (DomainRecord.ID r),
      GetDNSName = DomainRecord.Name r, GetValue = DomainRecord.Data r,
      GetTTL = DomainRecord.TTL r, domain = key\<rparr>"

section \<open>Zones (packages dns and provider)\<close>

text \<open>
  Modelled from the spec: the constant \<open>dns.RS_NS\<close>, the provider type constant and
  \<open>provider.NewDNSHostedZone(providerType, id, domain, key, forwarded, isPrivate)\<close> are
  not among the sources. \<open>RS_NS\<close> is the type of the spec's NS records (delegations).
  The zone descriptor is the spec's Zone: identifier, domain name, key and the forwarded
  subdomain names, read by \<open>zone.Domain()\<close> and \<open>zone.Key()\<close>.
\<close>

definition RS_NS :: string where
  "RS_NS = ''NS''"

datatype provider_type = ProviderTypeDigitalOcean

record DNSHostedZone =
  ProviderType :: provider_type
  Id :: string
  Domain :: string
  Key :: string
  ForwardedDomains :: "string list"
  IsPrivate :: bool

definition NewDNSHostedZone ::
  "provider_type \<Rightarrow> string \<Rightarrow> string \<Rightarrow> string \<Rightarrow> string list \<Rightarrow> bool \<Rightarrow> DNSHostedZone" where
  "NewDNSHostedZone ptype zid dname key forwarded isPrivate =
     \<lparr>ProviderType = ptype, Id = zid, Domain = dname, Key = key,
      ForwardedDomains = forwarded, IsPrivate = isPrivate\<rparr>"

section \<open>The client (client.go)\<close>

text \<open>
  \<open>DNSClient\<close> holds the service; its metrics sink and rate limiter are the shared
  objects recorded in the \<open>world\<close>. A \<open>raw.Record\<close> handed to the client is the
  provider's own \<open>Record\<close>, so the assertion \<open>r.(*Record)\<close> succeeds.
\<close>

record DNSClient =
  svc :: DomainsService

definition createRecordRequest :: "Record \<Rightarrow> DomainRecordEditRequest" where
  "createRecordRequest r =
     (let req = \<lparr>DomainRecordEditRequest.Type = GetType r,
                 DomainRecordEditRequest.Name = GetDNSName r,
                 DomainRecordEditRequest.Data = GetValue r,
                 DomainRecordEditRequest.TTL = GetTTL r\<rparr>
      in if DomainRecordEditRequest.TTL req <s 30
         then req\<lparr>DomainRecordEditRequest.TTL := 30\<rparr>
         else req)"

definition CreateRecord :: "DNSClient \<Rightarrow> Record \<Rightarrow> world \<Rightarrow> error option \<times> world" where
  "CreateRecord cl r w =
     (let req = createRecordRequest r;
          w1 = AddRequests M_CREATERECORDS 1 w;
          w2 = Accept w1;
          w3 = remote (CallCreateRecord (domain r) req) w2
      in case svc_CreateRecord (svc cl) (domain r) req of
           Some err \<Rightarrow>
             (Some (Errorf ''failed to create record of type %q for DNS name %q and value %q: %s''
                [Str (GetType r), Str (GetDNSName r), Str (GetValue r), Err err]), w3)
         | None \<Rightarrow> (None, w3))"

definition UpdateRecord :: "DNSClient \<Rightarrow> Record \<Rightarrow> world \<Rightarrow> error option \<times> world" where
  "UpdateRecord cl r w =
     (let req = createRecordRequest r in
      case Atoi (GetId r) of
        Inl err \<Rightarrow>
          (Some (Errorf ''failed to convert record ID %q to integer: %s''
             [Str (GetId r), Err err]), w)
      | Inr record_id \<Rightarrow>
          (let w1 = AddRequests M_UPDATERECORDS 1 w;
               w2 = Accept w1;
               w3 = remote (CallEditRecord (domain r) record_id req) w2
           in case svc_EditRecord (svc cl) (domain r) record_id req of
                Some err \<Rightarrow>
                  (Some (Errorf ''failed to update record of type %q for DNS name %q and value %q: %s''
                     [Str (GetType r), Str (GetDNSName r), Str (GetValue r), Err err]), w3)
              | None \<Rightarrow> (None, w3)))"

definition DeleteRecord :: "DNSClient \<Rightarrow> Record \<Rightarrow> world \<Rightarrow> error option \<times> world" where
  "DeleteRecord cl r w =
     (case Atoi (GetId r) of
        Inl err \<Rightarrow>
          (Some (Errorf ''failed to convert ID %q to integer: %s''
             [Str (GetId r), Err err]), w)
      | Inr record_id \<Rightarrow>
          (let w1 = AddRequests M_DELETERECORDS 1 w;
               w2 = Accept w1;
               w3 = remote (CallDeleteRecord (domain r) record_id) w2
           in case svc_DeleteRecord (svc cl) (domain r) record_id of
                Some err \<Rightarrow>
                  (Some (Errorf ''failed to delete record of type %q for DNS name %q and value %q: %s''
                     [Str (GetType r), Str (GetDNSName r), Str (GetValue r), Err err]), w3)
              | None \<Rightarrow> (None, w3)))"

text \<open>
  The pagination loops of \<open>ListDomains\<close> and \<open>ListRecords\<close>. A loop that never sees
  a last page does not return: its value is \<open>None\<close>. Each iteration sends one request,
  appends the page to what was collected, and stops at a response without \<open>Links\<close> or
  with \<open>IsLastPage()\<close>; otherwise it asks for the page after \<open>CurrentPage()\<close>.
\<close>

partial_function (option) ListDomains_loop ::
  "DNSClient \<Rightarrow> ListOptions \<Rightarrow> Domain list \<Rightarrow> world \<Rightarrow> ((error + Domain list) \<times> world) option" where
  "ListDomains_loop cl opt domains w =
     (case svc_List (svc cl) opt of
        Inl err \<Rightarrow> Some (Inl err, remote (CallList opt) w)
      | Inr (doms, links) \<Rightarrow>
          (case links of
             None \<Rightarrow> Some (Inr (domains @ doms), remote (CallList opt) w)
           | Some l \<Rightarrow>
               if IsLastPage l then Some (Inr (domains @ doms), remote (CallList opt) w)
               else
                 (case CurrentPage l of
                    Inl err \<Rightarrow> Some (Inl err, remote (CallList opt) w)
                  | Inr page \<Rightarrow>
                      ListDomains_loop cl (opt\<lparr>Page := page + 1\<rparr>) (domains @ doms)
                        (remote (CallList opt) w))))"

declare ListDomains_loop.simps [code]

definition ListDomains :: "DNSClient \<Rightarrow> world \<Rightarrow> ((error + Domain list) \<times> world) option" where
  "ListDomains cl w =
     ListDomains_loop cl \<lparr>Page = 1, PerPage = 100\<rparr> []
       (Accept (AddRequests M_LISTZONES 1 w))"

partial_function (option) ListRecords_loop ::
  "DNSClient \<Rightarrow> string \<Rightarrow> ListOptions \<Rightarrow> DomainRecord list \<Rightarrow> world
     \<Rightarrow> ((error + DomainRecord list) \<times> world) option" where
  "ListRecords_loop cl domain_name opt records w =
     (case svc_Records (svc cl) domain_name opt of
        Inl err \<Rightarrow> Some (Inl err, remote (CallRecords domain_name opt) w)
      | Inr (recs, links) \<Rightarrow>
          (case links of
             None \<Rightarrow> Some (Inr (records @ recs), remote (CallRecords domain_name opt) w)
           | Some l \<Rightarrow>
               if IsLastPage l then Some (Inr (records @ recs), remote (CallRecords domain_name opt) w)
               else
                 (case CurrentPage l of
                    Inl err \<Rightarrow> Some (Inl err, remote (CallRecords domain_name opt) w)
                  | Inr page \<Rightarrow>
                      ListRecords_loop cl domain_name (opt\<lparr>Page := page + 1\<rparr>) (records @ recs)
                        (remote (CallRecords domain_name opt) w))))"

declare ListRecords_loop.simps [code]

definition ListRecords ::
  "DNSClient \<Rightarrow> string \<Rightarrow> world \<Rightarrow> ((error + DomainRecord list) \<times> world) option" where
  "ListRecords cl domain_name w =
     ListRecords_loop cl domain_name \<lparr>Page = 1, PerPage = 100\<rparr> []
       (Accept (AddRequests M_LISTRECORDS 1 w))"

text \<open>
  \<open>NewRecord\<close> builds a provider record from its arguments (the identifier is Go's
  zero value) and normalizes it under the zone's key.
\<close>

definition NewRecord :: "string \<Rightarrow> string \<Rightarrow> string \<Rightarrow> DNSHostedZone \<Rightarrow> go_int64 \<Rightarrow> Record" where
  "NewRecord fqdn rtype val zone ttl =
     toRecord \<lparr>DomainRecord.ID = 0, DomainRecord.Type = rtype, DomainRecord.Name = fqdn,
               DomainRecord.Data = val, DomainRecord.TTL = ttl\<rparr> (Key zone)"

section \<open>Zone state and change requests (packages raw and provider)\<close>

text \<open>
  Modelled from the spec: the zone state of package \<open>raw\<close> (\<open>NewState\<close>,
  \<open>AddRecord\<close>, \<open>CalculateDNSSets\<close>) is not among the sources. The spec's ZoneState
  is a collection of DNSSets and an index of the underlying Records. A DNSSet has the key
  (DNS name, type) and the (value, TTL) pairs of its records in encounter order; its
  effective TTL is the lowest TTL among them, the first seen on a tie. A forwarded
  subdomain, an NS record whose name differs from the apex of the zone the record
  belongs to, is kept in the index of records and does not participate in the
  aggregation into DNSSets.
\<close>

record DNSSet =
  set_name :: string
  set_type :: string
  set_ttl :: go_int
  set_values :: "(string \<times> go_int) list"

record ZoneState =
  state_records :: "Record list"
  state_sets :: "DNSSet list"

definition NewState :: ZoneState where
  "NewState = \<lparr>state_records = [], state_sets = []\<rparr>"

definition AddRecord :: "Record \<Rightarrow> ZoneState \<Rightarrow> ZoneState" where
  "AddRecord r st = st\<lparr>state_records := state_records st @ [r]\<rparr>"

fun merge_record :: "Record \<Rightarrow> DNSSet list \<Rightarrow> DNSSet list" where
  "merge_record r [] =
     [\<lparr>set_name = GetDNSName r, set_type = GetType r, set_ttl = GetTTL r,
       set_values = [(GetValue r, GetTTL r)]\<rparr>]"
| "merge_record r (s # sets) =
     (if set_name s = GetDNSName r \<and> set_type s = GetType r
      then s\<lparr>set_ttl := (if GetTTL r <s set_ttl s then GetTTL r else set_ttl s),
             set_values := set_values s @ [(GetValue r, GetTTL r)]\<rparr> # sets
      else s # merge_record r sets)"

fun build_sets :: "Record list \<Rightarrow> DNSSet list \<Rightarrow> DNSSet list" where
  "build_sets [] sets = sets"
| "build_sets (r # rs) sets = build_sets rs (merge_record r sets)"

definition is_forwarded :: "Record \<Rightarrow> bool" where
  "is_forwarded r = (GetType r = RS_NS \<and> GetDNSName r \<noteq> domain r)"

definition CalculateDNSSets :: "ZoneState \<Rightarrow> ZoneState" where
  "CalculateDNSSets st =
     st\<lparr>state_sets := build_sets (filter (\<lambda>r. \<not> is_forwarded r) (state_records st)) []\<rparr>"

text \<open>
  Modelled from the spec: \<open>provider.ChangeRequest\<close> is not among the sources. The
  spec's ChangeRequest is an operation (create, update or delete) and the target record's
  attributes.
\<close>

datatype operation = Create | Update | Delete

record ChangeRequest =
  Action :: operation
  target :: Record

section \<open>The zone cache (package provider)\<close>

text \<open>
  Modelled from the spec: \<open>provider.NewZoneCache\<close>, the cache it returns and
  \<open>CopyWithDisabledZoneStateCache\<close> are not among the sources. The spec's cache keeps
  the last zone list and, per zone key, the last zone state, each with a validity flag.
  A read serves a valid entry and otherwise performs one refresh through the updater the
  cache was created with, installing the result; a failed refresh leaves the entry as it
  was. A conflict report marks the zone's entry invalid and always answers that the
  caller should retry. After a batch without error the requests are folded into the
  zone's valid entry; after a batch with an error the entry is marked invalid.
  The cache-behaviour option modelled is the one the handler sets: with zone state
  caching disabled the cache holds no zone state, every read of a zone state goes to the
  updater, and there is no entry to invalidate or to fold requests into.
\<close>

record ZoneCacheConfig =
  disableZoneStateCaching :: bool

definition CopyWithDisabledZoneStateCache :: "ZoneCacheConfig \<Rightarrow> ZoneCacheConfig" where
  "CopyWithDisabledZoneStateCache c = c\<lparr>disableZoneStateCaching := True\<rparr>"

record 'a CacheEntry =
  snapshot :: 'a
  valid :: bool

record ZoneCache =
  cache_config :: ZoneCacheConfig
  zonesUpdater :: "world \<Rightarrow> ((error + DNSHostedZone list) \<times> world) option"
  stateUpdater :: "DNSHostedZone \<Rightarrow> world \<Rightarrow> ((error + ZoneState) \<times> world) option"
  zones_entry :: "DNSHostedZone list CacheEntry option"
  state_entries :: "string \<rightharpoonup> ZoneState CacheEntry"

definition NewZoneCache ::
  "ZoneCacheConfig \<Rightarrow> (world \<Rightarrow> ((error + DNSHostedZone list) \<times> world) option)
     \<Rightarrow> (DNSHostedZone \<Rightarrow> world \<Rightarrow> ((error + ZoneState) \<times> world) option)
     \<Rightarrow> error + ZoneCache" where
  "NewZoneCache cfg zones_updater state_updater =
     Inr \<lparr>cache_config = cfg, zonesUpdater = zones_updater, stateUpdater = state_updater,
          zones_entry = None, state_entries = Map.empty\<rparr>"

definition valid_snapshot :: "'a CacheEntry option \<Rightarrow> 'a option" where
  "valid_snapshot e =
     (case e of
        None \<Rightarrow> None
      | Some entry \<Rightarrow> if valid entry then Some (snapshot entry) else None)"

definition invalidate :: "'a CacheEntry option \<Rightarrow> 'a CacheEntry option" where
  "invalidate e = map_option (\<lambda>entry. entry\<lparr>valid := False\<rparr>) e"

definition ZoneCache_GetZones ::
  "ZoneCache \<Rightarrow> world \<Rightarrow> ((error + DNSHostedZone list) \<times> ZoneCache \<times> world) option" where
  "ZoneCache_GetZones c w =
     (case valid_snapshot (zones_entry c) of
        Some zones \<Rightarrow> Some (Inr zones, c, w)
      | None \<Rightarrow>
          (case zonesUpdater c w of
             None \<Rightarrow> None
           | Some (Inl err, w1) \<Rightarrow> Some (Inl err, c, w1)
           | Some (Inr zones, w1) \<Rightarrow>
               Some (Inr zones, c\<lparr>zones_entry := Some \<lparr>snapshot = zones, valid = True\<rparr>\<rparr>, w1)))"

definition ZoneCache_GetZoneState ::
  "ZoneCache \<Rightarrow> DNSHostedZone \<Rightarrow> world \<Rightarrow> ((error + ZoneState) \<times> ZoneCache \<times> world) option" where
  "ZoneCache_GetZoneState c zone w =
     (if disableZoneStateCaching (cache_config c) then
        (case stateUpdater c zone w of
           None \<Rightarrow> None
         | Some (res, w1) \<Rightarrow> Some (res, c, w1))
      else
        (case valid_snapshot (state_entries c (Key zone)) of
           Some st \<Rightarrow> Some (Inr st, c, w)
         | None \<Rightarrow>
             (case stateUpdater c zone w of
                None \<Rightarrow> None
              | Some (Inl err, w1) \<Rightarrow> Some (Inl err, c, w1)
              | Some (Inr st, w1) \<Rightarrow>
                  Some (Inr st,
                        c\<lparr>state_entries := (state_entries c)
                             (Key zone \<mapsto> \<lparr>snapshot = st, valid = True\<rparr>)\<rparr>, w1))))"

definition ZoneCache_ReportZoneStateConflict ::
  "ZoneCache \<Rightarrow> DNSHostedZone \<Rightarrow> error \<Rightarrow> bool \<times> ZoneCache" where
  "ZoneCache_ReportZoneStateConflict c zone err =
     (True, c\<lparr>state_entries := (state_entries c)
                 (Key zone := invalidate (state_entries c (Key zone)))\<rparr>)"

fun fold_request :: "ChangeRequest \<Rightarrow> Record list \<Rightarrow> Record list" where
  "fold_request req rs =
     (case Action req of
        Create \<Rightarrow> rs @ [target req]
      | Update \<Rightarrow> map (\<lambda>r. if GetId r = GetId (target req) then target req else r) rs
      | Delete \<Rightarrow> filter (\<lambda>r. GetId r \<noteq> GetId (target req)) rs)"

definition fold_requests :: "ChangeRequest list \<Rightarrow> ZoneState \<Rightarrow> ZoneState" where
  "fold_requests reqs st =
     CalculateDNSSets (st\<lparr>state_records := fold fold_request reqs (state_records st)\<rparr>)"

definition ZoneCache_ApplyRequests ::
  "ZoneCache \<Rightarrow> bool \<Rightarrow> DNSHostedZone \<Rightarrow> ChangeRequest list \<Rightarrow> ZoneCache" where
  "ZoneCache_ApplyRequests c failed zone reqs =
     (if disableZoneStateCaching (cache_config c) then c
      else if failed then
        c\<lparr>state_entries := (state_entries c)
             (Key zone := invalidate (state_entries c (Key zone)))\<rparr>
      else
        (case valid_snapshot (state_entries c (Key zone)) of
           None \<Rightarrow> c
         | Some st \<Rightarrow>
             c\<lparr>state_entries := (state_entries c)
                  (Key zone \<mapsto> \<lparr>snapshot = fold_requests reqs st, valid = True\<rparr>)\<rparr>))"

definition ZoneCache_Release :: "ZoneCache \<Rightarrow> ZoneCache" where
  "ZoneCache_Release c = c\<lparr>zones_entry := None, state_entries := Map.empty\<rparr>"

section \<open>The handler\<close>

text \<open>
  The refresh functions the cache is created with. \<open>getZones\<close> lists the domains and,
  for each in order, its records; \<open>forwarded\<close> is declared before the loop over the
  domains and only ever appended to. \<open>h.ProviderType()\<close> is the provider type
  \<open>NewHandler\<close> creates the handler with.
\<close>

fun getZones_forwarded :: "Domain \<Rightarrow> DomainRecord list \<Rightarrow> string list \<Rightarrow> string list" where
  "getZones_forwarded d [] forwarded = forwarded"
| "getZones_forwarded d (r # records) forwarded =
     getZones_forwarded d records
       (if DomainRecord.Type r = RS_NS \<and> DomainRecord.Name r \<noteq> Domain.Name d
        then forwarded @ [DomainRecord.Name r]
        else forwarded)"

fun getZones_loop ::
  "DNSClient \<Rightarrow> Domain list \<Rightarrow> string list \<Rightarrow> DNSHostedZone list \<Rightarrow> world
     \<Rightarrow> ((error + DNSHostedZone list) \<times> world) option" where
  "getZones_loop cl [] forwarded zones w = Some (Inr zones, w)"
| "getZones_loop cl (d # domains) forwarded zones w =
     (case ListRecords cl (Domain.Name d) w of
        None \<Rightarrow> None
      | Some (Inl err, w1) \<Rightarrow> Some (Inl err, w1)
      | Some (Inr records, w1) \<Rightarrow>
          getZones_loop cl domains (getZones_forwarded d records forwarded)
            (zones @ [NewDNSHostedZone ProviderTypeDigitalOcean (Domain.Name d) (Domain.Name d)
                        (Domain.Name d) (getZones_forwarded d records forwarded) False])
            w1)"

definition getZones :: "DNSClient \<Rightarrow> world \<Rightarrow> ((error + DNSHostedZone list) \<times> world) option" where
  "getZones cl w =
     (case ListDomains cl w of
        None \<Rightarrow> None
      | Some (Inl err, w1) \<Rightarrow> Some (Inl err, w1)
      | Some (Inr domains, w1) \<Rightarrow> getZones_loop cl domains [] [] w1)"

fun getZoneState_records :: "string \<Rightarrow> DomainRecord list \<Rightarrow> ZoneState \<Rightarrow> ZoneState" where
  "getZoneState_records zone_domain [] state = state"
| "getZoneState_records zone_domain (r # records) state =
     getZoneState_records zone_domain records (AddRecord (toRecord r zone_domain) state)"

definition getZoneState ::
  "DNSClient \<Rightarrow> DNSHostedZone \<Rightarrow> world \<Rightarrow> ((error + ZoneState) \<times> world) option" where
  "getZoneState cl zone w =
     (case ListRecords cl (Domain zone) w of
        None \<Rightarrow> None
      | Some (Inl err, w1) \<Rightarrow> Some (Inl err, w1)
      | Some (Inr records, w1) \<Rightarrow>
          Some (Inr (CalculateDNSSets (getZoneState_records (Domain zone) records NewState)), w1))"

text \<open>
  Modelled from the spec: \<open>provider.DNSHandlerConfig\<close> and its method
  \<open>GetRequiredProperty\<close> are not among the sources. The spec's configuration bundle
  supplies the credentials and the cache options; \<open>GetRequiredProperty\<close> answers the
  value of the first of the given keys that the configuration has, and an error when it
  has none.
\<close>

record DNSHandlerConfig =
  Properties :: "string \<rightharpoonup> string"
  CacheConfig :: ZoneCacheConfig

fun GetRequiredProperty :: "DNSHandlerConfig \<Rightarrow> string list \<Rightarrow> error + string" where
  "GetRequiredProperty c [] = Inl (ErrorString ''missing required property'')"
| "GetRequiredProperty c (k # keys) =
     (case Properties c k of
        Some v \<Rightarrow> Inr v
      | None \<Rightarrow> GetRequiredProperty c keys)"

record Handler =
  handler_type :: provider_type
  config :: DNSHandlerConfig
  cache :: ZoneCache
  client :: DNSClient

text \<open>
  \<open>NewDNSClient\<close> reaches the service through \<open>godo.NewFromToken\<close>, a parameter here:
  the service a token gives access to.
\<close>

definition NewDNSClient :: "(string \<Rightarrow> DomainsService) \<Rightarrow> string \<Rightarrow> DNSClient" where
  "NewDNSClient NewFromToken apiToken = \<lparr>svc = NewFromToken apiToken\<rparr>"

definition NewHandler :: "(string \<Rightarrow> DomainsService) \<Rightarrow> DNSHandlerConfig \<Rightarrow> error + Handler" where
  "NewHandler NewFromToken c =
     (case GetRequiredProperty c [''DIGITALOCEAN_ACCESS_TOKEN'', ''apiToken''] of
        Inl err \<Rightarrow> Inl err
      | Inr apiToken \<Rightarrow>
          (case NewZoneCache (CopyWithDisabledZoneStateCache (CacheConfig c))
                  (getZones (NewDNSClient NewFromToken apiToken))
                  (getZoneState (NewDNSClient NewFromToken apiToken)) of
             Inl err \<Rightarrow> Inl err
           | Inr zc \<Rightarrow>
               Inr \<lparr>handler_type = ProviderTypeDigitalOcean, config = c, cache = zc,
                    client = NewDNSClient NewFromToken apiToken\<rparr>))"

definition Release :: "Handler \<Rightarrow> Handler" where
  "Release h = h\<lparr>cache := ZoneCache_Release (cache h)\<rparr>"

definition GetZones ::
  "Handler \<Rightarrow> world \<Rightarrow> ((error + DNSHostedZone list) \<times> Handler \<times> world) option" where
  "GetZones h w =
     (case ZoneCache_GetZones (cache h) w of
        None \<Rightarrow> None
      | Some (res, zc, w1) \<Rightarrow> Some (res, h\<lparr>cache := zc\<rparr>, w1))"

definition GetZoneState ::
  "Handler \<Rightarrow> DNSHostedZone \<Rightarrow> world \<Rightarrow> ((error + ZoneState) \<times> Handler \<times> world) option" where
  "GetZoneState h zone w =
     (case ZoneCache_GetZoneState (cache h) zone w of
        None \<Rightarrow> None
      | Some (res, zc, w1) \<Rightarrow> Some (res, h\<lparr>cache := zc\<rparr>, w1))"

definition ReportZoneStateConflict :: "Handler \<Rightarrow> DNSHostedZone \<Rightarrow> error \<Rightarrow> bool \<times> Handler" where
  "ReportZoneStateConflict h zone err =
     (case ZoneCache_ReportZoneStateConflict (cache h) zone err of
        (retry, zc) \<Rightarrow> (retry, h\<lparr>cache := zc\<rparr>))"

text \<open>
  Modelled from the spec: \<open>raw.ExecuteRequests\<close> is not among the sources. The spec's
  change executor takes the requests in order; for each it invokes the client operation
  of the request's kind (the client raises the TTL to the floor when it builds the
  payload); on the first failure it stops and returns one aggregate error with the
  number of requests that succeeded before it, the failing operation, its record and the
  underlying cause.
\<close>

record batch_error =
  succeeded :: nat
  failed_operation :: operation
  failed_record :: Record
  cause :: error

definition apply_request :: "DNSClient \<Rightarrow> ChangeRequest \<Rightarrow> world \<Rightarrow> error option \<times> world" where
  "apply_request cl req w =
     (case Action req of
        Create \<Rightarrow> CreateRecord cl (target req) w
      | Update \<Rightarrow> UpdateRecord cl (target req) w
      | Delete \<Rightarrow> DeleteRecord cl (target req) w)"

fun execute_from :: "DNSClient \<Rightarrow> nat \<Rightarrow> ChangeRequest list \<Rightarrow> world \<Rightarrow> batch_error option \<times> world" where
  "execute_from cl n [] w = (None, w)"
| "execute_from cl n (req # reqs) w =
     (case apply_request cl req w of
        (None, w1) \<Rightarrow> execute_from cl (Suc n) reqs w1
      | (Some err, w1) \<Rightarrow>
          (Some \<lparr>succeeded = n, failed_operation = Action req, failed_record = target req,
                 cause = err\<rparr>, w1))"

definition raw_ExecuteRequests ::
  "DNSHandlerConfig \<Rightarrow> DNSClient \<Rightarrow> DNSHostedZone \<Rightarrow> ZoneState \<Rightarrow> ChangeRequest list \<Rightarrow> world
     \<Rightarrow> batch_error option \<times> world" where
  "raw_ExecuteRequests cfg cl zone state reqs w = execute_from cl 0 reqs w"

definition ExecuteRequests ::
  "Handler \<Rightarrow> DNSHostedZone \<Rightarrow> ZoneState \<Rightarrow> ChangeRequest list \<Rightarrow> world
     \<Rightarrow> batch_error option \<times> Handler \<times> world" where
  "ExecuteRequests h zone state reqs w =
     (case raw_ExecuteRequests (config h) (client h) zone state reqs w of
        (err, w1) \<Rightarrow>
          (err, h\<lparr>cache := ZoneCache_ApplyRequests (cache h) (err \<noteq> None) zone reqs\<rparr>, w1))"

section \<open>Paginated services\<close>

text \<open>
  What it means for a list operation \<open>fetch\<close> of the service to hold the pages
  \<open>pages\<close>, the first under page number \<open>p\<close>: every request but the last answers
  its page with links that are not the last page and report the requested page as the
  current one; the last request answers its page with no links or with the last-page
  marker. \<open>fails_after\<close> is the service that answers \<open>pages\<close> in that way and then
  fails the next request with \<open>e\<close>. \<open>page_requests p n\<close> are the requests for \<open>n\<close>
  consecutive pages from \<open>p\<close>, with the client's page size.
\<close>

definition continues :: "Links option \<Rightarrow> go_int \<Rightarrow> bool" where
  "continues links p =
     (case links of
        None \<Rightarrow> False
      | Some l \<Rightarrow> \<not> IsLastPage l \<and> CurrentPage l = Inr p)"

definition last_page :: "Links option \<Rightarrow> bool" where
  "last_page links = (case links of None \<Rightarrow> True | Some l \<Rightarrow> IsLastPage l)"

fun serves_pages ::
  "(ListOptions \<Rightarrow> error + ('a list \<times> Links option)) \<Rightarrow> go_int \<Rightarrow> 'a list list \<Rightarrow> bool" where
  "serves_pages fetch p [] = False"
| "serves_pages fetch p [pg] =
     (case fetch \<lparr>Page = p, PerPage = 100\<rparr> of
        Inl e \<Rightarrow> False
      | Inr (items, links) \<Rightarrow> items = pg \<and> last_page links)"
| "serves_pages fetch p (pg # rest) =
     (case fetch \<lparr>Page = p, PerPage = 100\<rparr> of
        Inl e \<Rightarrow> False
      | Inr (items, links) \<Rightarrow>
          items = pg \<and> continues links p \<and> serves_pages fetch (p + 1) rest)"

fun fails_after ::
  "(ListOptions \<Rightarrow> error + ('a list \<times> Links option)) \<Rightarrow> go_int \<Rightarrow> 'a list list \<Rightarrow> error \<Rightarrow> bool" where
  "fails_after fetch p [] e = (fetch \<lparr>Page = p, PerPage = 100\<rparr> = Inl e)"
| "fails_after fetch p (pg # rest) e =
     (case fetch \<lparr>Page = p, PerPage = 100\<rparr> of
        Inl e' \<Rightarrow> False
      | Inr (items, links) \<Rightarrow>
          items = pg \<and> continues links p \<and> fails_after fetch (p + 1) rest e)"

fun page_requests :: "go_int \<Rightarrow> nat \<Rightarrow> ListOptions list" where
  "page_requests p 0 = []"
| "page_requests p (Suc n) = \<lparr>Page = p, PerPage = 100\<rparr> # page_requests (p + 1) n"

section \<open>Observations used in the statements\<close>

text \<open>
  \<open>applied cl reqs w\<close> is the world after the client operations of \<open>reqs\<close>, one after
  the other in the list's order. \<open>reports q err r e\<close> says that the message of \<open>err\<close>
  contains the quoted type, DNS name and value of \<open>r\<close> and the message of the cause
  \<open>e\<close>. \<open>GetZoneState_twice\<close> is two consecutive calls of \<open>GetZoneState\<close>: both
  results and the world after the second.
\<close>

text \<open>
  \<open>aggregates rs sets\<close> says that \<open>sets\<close> is the aggregation of the records \<open>rs\<close>:
  the keys (DNS name, type) of the sets are distinct and are the keys of the records;
  the (value, TTL) pairs of a set are those of the records with its key, in the order
  of the records and with the TTLs the records have; the TTL of a set is one of its
  pairs' TTLs and no pair has a lower one.
\<close>

definition record_key :: "Record \<Rightarrow> string \<times> string" where
  "record_key r = (GetDNSName r, GetType r)"

definition set_key :: "DNSSet \<Rightarrow> string \<times> string" where
  "set_key s = (set_name s, set_type s)"

definition lowest :: "go_int \<Rightarrow> go_int list \<Rightarrow> bool" where
  "lowest t ts = (t \<in> set ts \<and> list_all (\<lambda>u. t \<le>s u) ts)"

definition set_of_records :: "Record list \<Rightarrow> DNSSet \<Rightarrow> bool" where
  "set_of_records rs s =
     (set_values s =
        map (\<lambda>r. (GetValue r, GetTTL r)) (filter (\<lambda>r. record_key r = set_key s) rs) \<and>
      lowest (set_ttl s) (map snd (set_values s)))"

definition aggregates :: "Record list \<Rightarrow> DNSSet list \<Rightarrow> bool" where
  "aggregates rs sets =
     (distinct (map set_key sets) \<and>
      set (map set_key sets) = set (map record_key rs) \<and>
      list_all (set_of_records rs) sets)"

definition applied :: "DNSClient \<Rightarrow> ChangeRequest list \<Rightarrow> world \<Rightarrow> world" where
  "applied cl reqs w = fold (\<lambda>req w'. snd (apply_request cl req w')) reqs w"

definition reports :: "(string \<Rightarrow> string) \<Rightarrow> error \<Rightarrow> Record \<Rightarrow> error \<Rightarrow> bool" where
  "reports q err r e =
     (sublist (q (GetType r)) (Error q err) \<and> sublist (q (GetDNSName r)) (Error q err) \<and>
      sublist (q (GetValue r)) (Error q err) \<and> sublist (Error q e) (Error q err))"

definition GetZoneState_twice ::
  "Handler \<Rightarrow> DNSHostedZone \<Rightarrow> world \<Rightarrow> ((error + ZoneState) \<times> (error + ZoneState) \<times> world) option" where
  "GetZoneState_twice h zone w =
     (case GetZoneState h zone w of
        None \<Rightarrow> None
      | Some (res1, h1, w1) \<Rightarrow>
          (case GetZoneState h1 zone w1 of
             None \<Rightarrow> None
           | Some (res2, h2, w2) \<Rightarrow> Some (res1, res2, w2)))"

section \<open>Example service\<close>

text \<open>
  A service with two domains, listed on two pages. \<open>example.com\<close> has an address record
  with TTL 10 and a delegation of \<open>sub.example.com\<close>, on two pages; \<open>example.org\<close> has
  one address record and no delegation. Creating \<open>bad.example.com\<close>, editing record 7
  and deleting record 9 fail. The failing service answers the first page of domains and
  fails the second, and fails every list of records.
\<close>

definition ex_links :: "go_int \<Rightarrow> Links option" where
  "ex_links p = Some \<lparr>IsLastPage = False, CurrentPage = Inr p\<rparr>"

definition ex_record_a :: DomainRecord where
  "ex_record_a = \<lparr>DomainRecord.ID = 5, DomainRecord.Type = ''A'',
     DomainRecord.Name = ''example.com'', DomainRecord.Data = ''1.2.3.4'', DomainRecord.TTL = 10\<rparr>"

definition ex_record_ns :: DomainRecord where
  "ex_record_ns = \<lparr>DomainRecord.ID = 6, DomainRecord.Type = ''NS'',
     DomainRecord.Name = ''sub.example.com'', DomainRecord.Data = ''ns1.example.com'',
     DomainRecord.TTL = 3600\<rparr>"

definition ex_record_org :: DomainRecord where
  "ex_record_org = \<lparr>DomainRecord.ID = 8, DomainRecord.Type = ''A'',
     DomainRecord.Name = ''example.org'', DomainRecord.Data = ''5.6.7.8'', DomainRecord.TTL = 300\<rparr>"

definition ex_List :: "ListOptions \<Rightarrow> error + (Domain list \<times> Links option)" where
  "ex_List opt =
     (if Page opt = 1 then Inr ([\<lparr>Domain.Name = ''example.com''\<rparr>], ex_links 1)
      else if Page opt = 2 then Inr ([\<lparr>Domain.Name = ''example.org''\<rparr>], None)
      else Inl (ErrorString ''page not found''))"

definition ex_Records :: "string \<Rightarrow> ListOptions \<Rightarrow> error + (DomainRecord list \<times> Links option)" where
  "ex_Records d opt =
     (if d = ''example.com'' \<and> Page opt = 1 then Inr ([ex_record_a], ex_links 1)
      else if d = ''example.com'' \<and> Page opt = 2
        then Inr ([ex_record_ns], Some \<lparr>IsLastPage = True, CurrentPage = Inr 2\<rparr>)
      else if d = ''example.org'' \<and> Page opt = 1 then Inr ([ex_record_org], None)
      else Inl (ErrorString ''not found''))"

definition ex_svc :: DomainsService where
  "ex_svc =
     \<lparr>svc_List = ex_List, svc_Records = ex_Records,
      svc_CreateRecord =
        (\<lambda>d req. if DomainRecordEditRequest.Name req = ''bad.example.com''
                  then Some (ErrorString ''unprocessable'') else None),
      svc_EditRecord = (\<lambda>d i req. if i = 7 then Some (ErrorString ''not found'') else None),
      svc_DeleteRecord = (\<lambda>d i. if i = 9 then Some (ErrorString ''not found'') else None)\<rparr>"

definition ex_client :: DNSClient where
  "ex_client = \<lparr>svc = ex_svc\<rparr>"

definition ex_failing_client :: DNSClient where
  "ex_failing_client =
     \<lparr>svc = ex_svc\<lparr>
        svc_List := (\<lambda>opt. if Page opt = 1 then ex_List opt
                           else Inl (ErrorString ''too many requests'')),
        svc_Records := (\<lambda>d opt. Inl (ErrorString ''too many requests''))\<rparr>\<rparr>"

definition ex_world :: world where
  "ex_world = \<lparr>requests = [], accepts = 0, calls = []\<rparr>"

definition ex_zone :: DNSHostedZone where
  "ex_zone =
     NewDNSHostedZone ProviderTypeDigitalOcean ''example.com'' ''example.com'' ''example.com''
       [''sub.example.com''] False"

definition ex_record :: "string \<Rightarrow> string \<Rightarrow> go_int \<Rightarrow> Record" where
  "ex_record rid name ttl =
     \<lparr>GetType = ''A'', GetId = rid, GetDNSName = name, GetValue = ''1.2.3.4'', GetTTL = ttl,
      domain = ''example.com''\<rparr>"

definition ex_NewFromToken :: "string \<Rightarrow> DomainsService" where
  "ex_NewFromToken token = ex_svc"

definition ex_config :: DNSHandlerConfig where
  "ex_config =
     \<lparr>Properties = [''DIGITALOCEAN_ACCESS_TOKEN'' \<mapsto> ''token''],
      CacheConfig = \<lparr>disableZoneStateCaching = False\<rparr>\<rparr>"

definition ex_handler :: Handler where
  "ex_handler =
     \<lparr>handler_type = ProviderTypeDigitalOcean, config = ex_config,
      cache = \<lparr>cache_config = \<lparr>disableZoneStateCaching = True\<rparr>,
               zonesUpdater = getZones ex_client, stateUpdater = getZoneState ex_client,
               zones_entry = None, state_entries = Map.empty\<rparr>,
      client = ex_client\<rparr>"

definition ex_state :: ZoneState where
  "ex_state =
     \<lparr>state_records = [toRecord ex_record_a ''example.com'', toRecord ex_record_ns ''example.com''],
      state_sets =
        [\<lparr>set_name = ''example.com'', set_type = ''A'', set_ttl = 10,
          set_values = [(''1.2.3.4'', 10)]\<rparr>]\<rparr>"

definition ex_create :: "string \<Rightarrow> ChangeRequest" where
  "ex_create name =
     \<lparr>Action = Create, target = NewRecord name ''A'' ''1.2.3.4'' ex_zone 10\<rparr>"

definition ex_update :: "string \<Rightarrow> string \<Rightarrow> ChangeRequest" where
  "ex_update rid name = \<lparr>Action = Update, target = ex_record rid name 10\<rparr>"

definition ex_delete :: "string \<Rightarrow> string \<Rightarrow> ChangeRequest" where
  "ex_delete rid name = \<lparr>Action = Delete, target = ex_record rid name 10\<rparr>"

definition ex_quote :: "string \<Rightarrow> string" where
  "ex_quote s = CHR 0x22 # s @ [CHR 0x22]"

section \<open>Properties of the client\<close>

subsection \<open>The TTL floor\<close>

lemma createRecordRequest_TTL:
  "DomainRecordEditRequest.TTL (createRecordRequest r) = (if GetTTL r <s 30 then 30 else GetTTL r)"
  by (simp add: createRecordRequest_def Let_def)

lemma sint_floor:
  "sint (if t <s 30 then 30 else (t :: go_int)) = max (sint t) 30"
  by (simp add: word_sless_alt max_def)

text \<open>
  C2: every record \<open>CreateRecord\<close> or \<open>UpdateRecord\<close> submits to the remote service
  carries the payload of \<open>createRecordRequest\<close>, whose TTL is \<open>max t 30\<close> for the
  record's TTL \<open>t\<close> (as signed integers): it is \<open>t\<close> when \<open>t \<ge> 30\<close>, and a TTL
  below 30 is raised to 30 and the record is submitted all the same: \<open>CreateRecord\<close>
  then fails only if the service does.
\<close>

theorem submitted_TTL_is_floored:
  "snd (CreateRecord cl r w) =
     remote (CallCreateRecord (domain r) (createRecordRequest r))
       (Accept (AddRequests M_CREATERECORDS 1 w)) \<and>
   (Atoi (GetId r) = Inr i \<longrightarrow>
      snd (UpdateRecord cl r w) =
        remote (CallEditRecord (domain r) i (createRecordRequest r))
          (Accept (AddRequests M_UPDATERECORDS 1 w))) \<and>
   sint (DomainRecordEditRequest.TTL (createRecordRequest r)) = max (sint (GetTTL r)) 30 \<and>
   (30 \<le>s GetTTL r \<longrightarrow> DomainRecordEditRequest.TTL (createRecordRequest r) = GetTTL r) \<and>
   (GetTTL r <s 30 \<longrightarrow>
      DomainRecordEditRequest.TTL (createRecordRequest r) = 30 \<and>
      fst (CreateRecord cl r w) =
        map_option
          (\<lambda>e. Errorf ''failed to create record of type %q for DNS name %q and value %q: %s''
                 [Str (GetType r), Str (GetDNSName r), Str (GetValue r), Err e])
          (svc_CreateRecord (svc cl) (domain r) (createRecordRequest r)))"
proof -
  have c: "snd (CreateRecord cl r w) =
     remote (CallCreateRecord (domain r) (createRecordRequest r))
       (Accept (AddRequests M_CREATERECORDS 1 w))"
    by (simp add: CreateRecord_def Let_def split: option.splits)
  have u: "Atoi (GetId r) = Inr i \<longrightarrow>
      snd (UpdateRecord cl r w) =
        remote (CallEditRecord (domain r) i (createRecordRequest r))
          (Accept (AddRequests M_UPDATERECORDS 1 w))"
    by (simp add: UpdateRecord_def Let_def split: option.splits)
  have m: "sint (DomainRecordEditRequest.TTL (createRecordRequest r)) = max (sint (GetTTL r)) 30"
    by (simp only: createRecordRequest_TTL sint_floor)
  have ge: "30 \<le>s GetTTL r \<longrightarrow> DomainRecordEditRequest.TTL (createRecordRequest r) = GetTTL r"
    by (simp add: createRecordRequest_TTL word_sless_alt word_sle_eq)
  have lt: "GetTTL r <s 30 \<longrightarrow> DomainRecordEditRequest.TTL (createRecordRequest r) = 30"
    by (simp add: createRecordRequest_TTL)
  have f: "fst (CreateRecord cl r w) =
        map_option
          (\<lambda>e. Errorf ''failed to create record of type %q for DNS name %q and value %q: %s''
                 [Str (GetType r), Str (GetDNSName r), Str (GetValue r), Err e])
          (svc_CreateRecord (svc cl) (domain r) (createRecordRequest r))"
    by (simp add: CreateRecord_def Let_def split: option.splits)
  from c u m ge lt f show ?thesis by blast
qed

subsection \<open>Identifiers that are not integers\<close>

text \<open>
  C5: when the record's identifier does not parse as an integer, \<open>UpdateRecord\<close> and
  \<open>DeleteRecord\<close> return the validation error that wraps the parse error, and the list
  of requests sent to the remote service is unchanged: no remote call is issued.
\<close>

theorem bad_id_no_remote_call:
  "Atoi (GetId r) = Inl e \<Longrightarrow>
     fst (UpdateRecord cl r w) =
       Some (Errorf ''failed to convert record ID %q to integer: %s'' [Str (GetId r), Err e]) \<and>
     calls (snd (UpdateRecord cl r w)) = calls w \<and>
     fst (DeleteRecord cl r w) =
       Some (Errorf ''failed to convert ID %q to integer: %s'' [Str (GetId r), Err e]) \<and>
     calls (snd (DeleteRecord cl r w)) = calls w"
  by (simp add: UpdateRecord_def DeleteRecord_def Let_def)

text \<open>
  C10: when the record's identifier does not parse as an integer, \<open>UpdateRecord\<close> and
  \<open>DeleteRecord\<close> record no metric increment and take no rate-limiter token: the
  identifier is validated before both effects.
\<close>

theorem bad_id_no_metric_no_token:
  "Atoi (GetId r) = Inl e \<Longrightarrow>
     requests (snd (UpdateRecord cl r w)) = requests w \<and>
     accepts (snd (UpdateRecord cl r w)) = accepts w \<and>
     requests (snd (DeleteRecord cl r w)) = requests w \<and>
     accepts (snd (DeleteRecord cl r w)) = accepts w"
  by (simp add: UpdateRecord_def DeleteRecord_def Let_def)

subsection \<open>Errors of the remote operations\<close>

lemma Error_create:
  "Error q (Errorf ''failed to create record of type %q for DNS name %q and value %q: %s''
      [Str t, Str n, Str v, Err e]) =
   ''failed to create record of type '' @ q t @ '' for DNS name '' @ q n @ '' and value '' @ q v @ '': '' @ Error q e"
  by simp

lemma Error_update:
  "Error q (Errorf ''failed to update record of type %q for DNS name %q and value %q: %s''
      [Str t, Str n, Str v, Err e]) =
   ''failed to update record of type '' @ q t @ '' for DNS name '' @ q n @ '' and value '' @ q v @ '': '' @ Error q e"
  by simp

lemma Error_delete:
  "Error q (Errorf ''failed to delete record of type %q for DNS name %q and value %q: %s''
      [Str t, Str n, Str v, Err e]) =
   ''failed to delete record of type '' @ q t @ '' for DNS name '' @ q n @ '' and value '' @ q v @ '': '' @ Error q e"
  by simp

lemma sublist_parts:
  "sublist t (a @ t @ b)" "sublist n (a @ t @ b @ n @ c)" "sublist v (a @ t @ b @ n @ c @ v @ d)"
  "sublist e (a @ t @ b @ n @ c @ v @ d @ e)"
proof -
  show "sublist t (a @ t @ b)" by (rule sublist_appendI)
  have "sublist n ((a @ t @ b) @ n @ c)" by (rule sublist_appendI)
  then show "sublist n (a @ t @ b @ n @ c)" by simp
  have "sublist v ((a @ t @ b @ n @ c) @ v @ d)" by (rule sublist_appendI)
  then show "sublist v (a @ t @ b @ n @ c @ v @ d)" by simp
  have "sublist e ((a @ t @ b @ n @ c @ v @ d) @ e @ [])" by (rule sublist_appendI)
  then show "sublist e (a @ t @ b @ n @ c @ v @ d @ e)" by simp
qed

lemma reports_message:
  "Error q err = a @ q (GetType r) @ b @ q (GetDNSName r) @ c @ q (GetValue r) @ d @ Error q e
   \<Longrightarrow> reports q err r e"
  unfolding reports_def
  using sublist_parts[of "q (GetType r)" a "b @ q (GetDNSName r) @ c @ q (GetValue r) @ d @ Error q e"]
    sublist_parts(2)[of "q (GetDNSName r)" a "q (GetType r)" b "c @ q (GetValue r) @ d @ Error q e"]
    sublist_parts(3)[of "q (GetValue r)" a "q (GetType r)" b "q (GetDNSName r)" c "d @ Error q e"]
    sublist_parts(4)[of "Error q e" a "q (GetType r)" b "q (GetDNSName r)" c "q (GetValue r)" d]
  by simp

lemma reports_create:
  "reports q (Errorf ''failed to create record of type %q for DNS name %q and value %q: %s''
      [Str (GetType r), Str (GetDNSName r), Str (GetValue r), Err e]) r e"
  by (rule reports_message) (rule Error_create)

lemma reports_update:
  "reports q (Errorf ''failed to update record of type %q for DNS name %q and value %q: %s''
      [Str (GetType r), Str (GetDNSName r), Str (GetValue r), Err e]) r e"
  by (rule reports_message) (rule Error_update)

lemma reports_delete:
  "reports q (Errorf ''failed to delete record of type %q for DNS name %q and value %q: %s''
      [Str (GetType r), Str (GetDNSName r), Str (GetValue r), Err e]) r e"
  by (rule reports_message) (rule Error_delete)

text \<open>
  C8: when the remote create, update or delete operation fails with \<open>e\<close>, the client
  returns an error (it is never \<open>nil\<close>), and for every quoting function the message
  of that error contains the quoted type, DNS name and value of the record and the
  message of \<open>e\<close>.
\<close>

theorem remote_failure_reported:
  "(svc_CreateRecord (svc cl) (domain r) (createRecordRequest r) = Some e \<longrightarrow>
      (\<exists>err. fst (CreateRecord cl r w) = Some err \<and> reports q err r e)) \<and>
   (Atoi (GetId r) = Inr i \<and> svc_EditRecord (svc cl) (domain r) i (createRecordRequest r) = Some e \<longrightarrow>
      (\<exists>err. fst (UpdateRecord cl r w) = Some err \<and> reports q err r e)) \<and>
   (Atoi (GetId r) = Inr i \<and> svc_DeleteRecord (svc cl) (domain r) i = Some e \<longrightarrow>
      (\<exists>err. fst (DeleteRecord cl r w) = Some err \<and> reports q err r e))"
proof (intro conjI impI)
  assume "svc_CreateRecord (svc cl) (domain r) (createRecordRequest r) = Some e"
  then have "fst (CreateRecord cl r w) =
      Some (Errorf ''failed to create record of type %q for DNS name %q and value %q: %s''
        [Str (GetType r), Str (GetDNSName r), Str (GetValue r), Err e])"
    by (simp add: CreateRecord_def Let_def)
  then show "\<exists>err. fst (CreateRecord cl r w) = Some err \<and> reports q err r e"
    using reports_create[of q r e] by simp
next
  assume "Atoi (GetId r) = Inr i \<and> svc_EditRecord (svc cl) (domain r) i (createRecordRequest r) = Some e"
  then have "fst (UpdateRecord cl r w) =
      Some (Errorf ''failed to update record of type %q for DNS name %q and value %q: %s''
        [Str (GetType r), Str (GetDNSName r), Str (GetValue r), Err e])"
    by (simp add: UpdateRecord_def Let_def)
  then show "\<exists>err. fst (UpdateRecord cl r w) = Some err \<and> reports q err r e"
    using reports_update[of q r e] by simp
next
  assume "Atoi (GetId r) = Inr i \<and> svc_DeleteRecord (svc cl) (domain r) i = Some e"
  then have "fst (DeleteRecord cl r w) =
      Some (Errorf ''failed to delete record of type %q for DNS name %q and value %q: %s''
        [Str (GetType r), Str (GetDNSName r), Str (GetValue r), Err e])"
    by (simp add: DeleteRecord_def Let_def)
  then show "\<exists>err. fst (DeleteRecord cl r w) = Some err \<and> reports q err r e"
    using reports_delete[of q r e] by simp
qed

subsection \<open>Pagination\<close>

lemma ListDomains_loop_serves:
  "serves_pages (svc_List (svc cl)) p pages \<Longrightarrow>
   ListDomains_loop cl \<lparr>Page = p, PerPage = 100\<rparr> acc w =
     Some (Inr (acc @ concat pages),
           w\<lparr>calls := calls w @ map CallList (page_requests p (length pages))\<rparr>)"
proof (induction pages arbitrary: p acc w)
  case Nil
  then show ?case by simp
next
  case (Cons pg rest)
  show ?case
  proof (cases rest)
    case Nil
    with Cons.prems show ?thesis
      by (subst ListDomains_loop.simps)
         (auto simp: last_page_def remote_def split: sum.splits option.splits)
  next
    case (Cons pg' rest')
    with Cons.prems obtain l where
      f: "svc_List (svc cl) \<lparr>Page = p, PerPage = 100\<rparr> = Inr (pg, Some l)"
      and l: "\<not> IsLastPage l" "CurrentPage l = Inr p"
      and rest: "serves_pages (svc_List (svc cl)) (p + 1) rest"
      by (auto simp: continues_def split: sum.splits option.splits)
    show ?thesis
      by (subst ListDomains_loop.simps)
         (simp add: f l Cons.IH[OF rest] remote_def)
  qed
qed

lemma ListDomains_loop_fails:
  "fails_after (svc_List (svc cl)) p pages e \<Longrightarrow>
   ListDomains_loop cl \<lparr>Page = p, PerPage = 100\<rparr> acc w =
     Some (Inl e,
           w\<lparr>calls := calls w @ map CallList (page_requests p (Suc (length pages)))\<rparr>)"
proof (induction pages arbitrary: p acc w)
  case Nil
  then show ?case
    by (subst ListDomains_loop.simps) (simp add: remote_def)
next
  case (Cons pg rest)
  from Cons.prems obtain l where
    f: "svc_List (svc cl) \<lparr>Page = p, PerPage = 100\<rparr> = Inr (pg, Some l)"
    and l: "\<not> IsLastPage l" "CurrentPage l = Inr p"
    and rest: "fails_after (svc_List (svc cl)) (p + 1) rest e"
    by (auto simp: continues_def split: sum.splits option.splits)
  show ?case
    by (subst ListDomains_loop.simps)
       (simp add: f l Cons.IH[OF rest] remote_def)
qed

lemma ListRecords_loop_serves:
  "serves_pages (svc_Records (svc cl) d) p pages \<Longrightarrow>
   ListRecords_loop cl d \<lparr>Page = p, PerPage = 100\<rparr> acc w =
     Some (Inr (acc @ concat pages),
           w\<lparr>calls := calls w @ map (CallRecords d) (page_requests p (length pages))\<rparr>)"
proof (induction pages arbitrary: p acc w)
  case Nil
  then show ?case by simp
next
  case (Cons pg rest)
  show ?case
  proof (cases rest)
    case Nil
    with Cons.prems show ?thesis
      by (subst ListRecords_loop.simps)
         (auto simp: last_page_def remote_def split: sum.splits option.splits)
  next
    case (Cons pg' rest')
    with Cons.prems obtain l where
      f: "svc_Records (svc cl) d \<lparr>Page = p, PerPage = 100\<rparr> = Inr (pg, Some l)"
      and l: "\<not> IsLastPage l" "CurrentPage l = Inr p"
      and rest: "serves_pages (svc_Records (svc cl) d) (p + 1) rest"
      by (auto simp: continues_def split: sum.splits option.splits)
    show ?thesis
      by (subst ListRecords_loop.simps)
         (simp add: f l Cons.IH[OF rest] remote_def)
  qed
qed

lemma ListRecords_loop_fails:
  "fails_after (svc_Records (svc cl) d) p pages e \<Longrightarrow>
   ListRecords_loop cl d \<lparr>Page = p, PerPage = 100\<rparr> acc w =
     Some (Inl e,
           w\<lparr>calls := calls w @ map (CallRecords d) (page_requests p (Suc (length pages)))\<rparr>)"
proof (induction pages arbitrary: p acc w)
  case Nil
  then show ?case
    by (subst ListRecords_loop.simps) (simp add: remote_def)
next
  case (Cons pg rest)
  from Cons.prems obtain l where
    f: "svc_Records (svc cl) d \<lparr>Page = p, PerPage = 100\<rparr> = Inr (pg, Some l)"
    and l: "\<not> IsLastPage l" "CurrentPage l = Inr p"
    and rest: "fails_after (svc_Records (svc cl) d) (p + 1) rest e"
    by (auto simp: continues_def split: sum.splits option.splits)
  show ?case
    by (subst ListRecords_loop.simps)
       (simp add: f l Cons.IH[OF rest] remote_def)
qed

lemma ListDomains_loop_frame:
  assumes "ListDomains_loop cl opt acc w = Some y"
  shows "requests (snd y) = requests w \<and> accepts (snd y) = accepts w"
  by (rule ListDomains_loop.raw_induct[where P = "\<lambda>cl opt acc w y. requests (snd y) = requests w \<and> accepts (snd y) = accepts w", OF _ assms])
     (auto simp: remote_def split: sum.splits option.splits prod.splits if_splits)

lemma ListRecords_loop_frame:
  assumes "ListRecords_loop cl d opt acc w = Some y"
  shows "requests (snd y) = requests w \<and> accepts (snd y) = accepts w"
  by (rule ListRecords_loop.raw_induct[where P = "\<lambda>cl d opt acc w y. requests (snd y) = requests w \<and> accepts (snd y) = accepts w", OF _ assms])
     (auto simp: remote_def split: sum.splits option.splits prod.splits if_splits)

lemma ListDomains_serves:
  "serves_pages (svc_List (svc cl)) 1 pages \<Longrightarrow>
   ListDomains cl w =
     Some (Inr (concat pages),
           w\<lparr>requests := requests w @ [(M_LISTZONES, 1)], accepts := Suc (accepts w),
             calls := calls w @ map CallList (page_requests 1 (length pages))\<rparr>)"
  by (simp add: ListDomains_def ListDomains_loop_serves Accept_def AddRequests_def)

lemma ListRecords_serves:
  "serves_pages (svc_Records (svc cl) d) 1 pages \<Longrightarrow>
   ListRecords cl d w =
     Some (Inr (concat pages),
           w\<lparr>requests := requests w @ [(M_LISTRECORDS, 1)], accepts := Suc (accepts w),
             calls := calls w @ map (CallRecords d) (page_requests 1 (length pages))\<rparr>)"
  by (simp add: ListRecords_def ListRecords_loop_serves Accept_def AddRequests_def)

lemma ListDomains_fails:
  "fails_after (svc_List (svc cl)) 1 pages e \<Longrightarrow>
   ListDomains cl w =
     Some (Inl e,
           w\<lparr>requests := requests w @ [(M_LISTZONES, 1)], accepts := Suc (accepts w),
             calls := calls w @ map CallList (page_requests 1 (Suc (length pages)))\<rparr>)"
  by (simp add: ListDomains_def ListDomains_loop_fails Accept_def AddRequests_def)

lemma ListRecords_fails:
  "fails_after (svc_Records (svc cl) d) 1 pages e \<Longrightarrow>
   ListRecords cl d w =
     Some (Inl e,
           w\<lparr>requests := requests w @ [(M_LISTRECORDS, 1)], accepts := Suc (accepts w),
             calls := calls w @ map (CallRecords d) (page_requests 1 (Suc (length pages)))\<rparr>)"
  by (simp add: ListRecords_def ListRecords_loop_fails Accept_def AddRequests_def)

text \<open>
  C3: when the service holds the pages \<open>pages\<close> (one or more) under the page numbers
  from 1, \<open>ListDomains\<close> and \<open>ListRecords\<close> return the concatenation of all pages in
  the order of the requests, having requested each page once; when the service answers
  some pages and then fails a request with an error, the call returns that error and no
  list, and the failed request is the last one it sent.
\<close>

theorem list_pages_concatenated:
  "(serves_pages (svc_List (svc cl)) 1 pages \<longrightarrow>
      ListDomains cl w =
        Some (Inr (concat pages),
              w\<lparr>requests := requests w @ [(M_LISTZONES, 1)], accepts := Suc (accepts w),
                calls := calls w @ map CallList (page_requests 1 (length pages))\<rparr>)) \<and>
   (fails_after (svc_List (svc cl)) 1 pages' e \<longrightarrow>
      ListDomains cl w =
        Some (Inl e,
              w\<lparr>requests := requests w @ [(M_LISTZONES, 1)], accepts := Suc (accepts w),
                calls := calls w @ map CallList (page_requests 1 (Suc (length pages')))\<rparr>)) \<and>
   (serves_pages (svc_Records (svc cl) d) 1 rpages \<longrightarrow>
      ListRecords cl d w =
        Some (Inr (concat rpages),
              w\<lparr>requests := requests w @ [(M_LISTRECORDS, 1)], accepts := Suc (accepts w),
                calls := calls w @ map (CallRecords d) (page_requests 1 (length rpages))\<rparr>)) \<and>
   (fails_after (svc_Records (svc cl) d) 1 rpages' e' \<longrightarrow>
      ListRecords cl d w =
        Some (Inl e',
              w\<lparr>requests := requests w @ [(M_LISTRECORDS, 1)], accepts := Suc (accepts w),
                calls := calls w @ map (CallRecords d) (page_requests 1 (Suc (length rpages')))\<rparr>))"
  using ListDomains_serves[of cl pages w] ListDomains_fails[of cl pages' e w]
    ListRecords_serves[of cl d rpages w] ListRecords_fails[of cl d rpages' e' w]
  by blast

text \<open>
  C4: a call of \<open>ListDomains\<close> or \<open>ListRecords\<close> that returns has taken exactly one
  rate-limiter token and recorded exactly one metric increment, whatever the number of
  pages the loop fetched.
\<close>

theorem list_one_token_one_metric:
  "(ListDomains cl w = Some (res, w') \<longrightarrow>
      accepts w' = Suc (accepts w) \<and> requests w' = requests w @ [(M_LISTZONES, 1)]) \<and>
   (ListRecords cl d w = Some (rres, w'') \<longrightarrow>
      accepts w'' = Suc (accepts w) \<and> requests w'' = requests w @ [(M_LISTRECORDS, 1)])"
  using ListDomains_loop_frame[of cl "\<lparr>Page = 1, PerPage = 100\<rparr>" "[]" "Accept (AddRequests M_LISTZONES 1 w)" "(res, w')"]
    ListRecords_loop_frame[of cl d "\<lparr>Page = 1, PerPage = 100\<rparr>" "[]" "Accept (AddRequests M_LISTRECORDS 1 w)" "(rres, w'')"]
  by (simp add: ListDomains_def ListRecords_def Accept_def AddRequests_def)

text \<open>
  The effect of the pagination loop of \<open>ListRecords\<close> on the world is to append the
  requests it sent, at least one, and its result does not depend on the world.
\<close>

lemma ListRecords_loop_calls:
  assumes "ListRecords_loop cl d opt acc w = Some y"
  shows "\<exists>cs. cs \<noteq> [] \<and> snd y = w\<lparr>calls := calls w @ cs\<rparr> \<and>
           (\<forall>w'. ListRecords_loop cl d opt acc w' = Some (fst y, w'\<lparr>calls := calls w' @ cs\<rparr>))"
proof (rule ListRecords_loop.raw_induct[where P = "\<lambda>cl d opt acc w y.
           \<exists>cs. cs \<noteq> [] \<and> snd y = w\<lparr>calls := calls w @ cs\<rparr> \<and>
           (\<forall>w'. ListRecords_loop cl d opt acc w' = Some (fst y, w'\<lparr>calls := calls w' @ cs\<rparr>))",
        OF _ assms], goal_cases)
  case (1 loop cl d opt acc w y)
  let ?c = "CallRecords d opt"
  show ?case
  proof (cases "svc_Records (svc cl) d opt")
    case (Inl e)
    with 1(2) have y: "y = (Inl e, remote ?c w)" by simp
    have "\<forall>w'. ListRecords_loop cl d opt acc w' = Some (fst y, w'\<lparr>calls := calls w' @ [?c]\<rparr>)"
      by (subst ListRecords_loop.simps) (simp add: Inl y remote_def)
    with y show ?thesis by (intro exI[of _ "[?c]"]) (simp add: remote_def)
  next
    case (Inr page)
    obtain recs links where page: "page = (recs, links)" by (cases page)
    show ?thesis
    proof (cases "last_page links")
      case True
      with 1(2) Inr page have y: "y = (Inr (acc @ recs), remote ?c w)"
        by (auto simp: last_page_def split: option.splits)
      have "\<forall>w'. ListRecords_loop cl d opt acc w' = Some (fst y, w'\<lparr>calls := calls w' @ [?c]\<rparr>)"
        using True
        by (subst ListRecords_loop.simps)
           (auto simp: Inr page y remote_def last_page_def split: option.splits)
      with y show ?thesis by (intro exI[of _ "[?c]"]) (simp add: remote_def)
    next
      case False
      then obtain l where l: "links = Some l" "\<not> IsLastPage l"
        by (auto simp: last_page_def split: option.splits)
      show ?thesis
      proof (cases "CurrentPage l")
        case (Inl e)
        with 1(2) Inr page l have y: "y = (Inl e, remote ?c w)" by simp
        have "\<forall>w'. ListRecords_loop cl d opt acc w' = Some (fst y, w'\<lparr>calls := calls w' @ [?c]\<rparr>)"
          by (subst ListRecords_loop.simps) (simp add: Inr page l Inl y remote_def)
        with y show ?thesis by (intro exI[of _ "[?c]"]) (simp add: remote_def)
      next
        case (Inr p)
        with 1(2) \<open>svc_Records (svc cl) d opt = Inr page\<close> page l
        have "loop cl d (opt\<lparr>Page := p + 1\<rparr>) (acc @ recs) (remote ?c w) = Some y" by simp
        from 1(1)[OF this] obtain cs where
          cs: "snd y = (remote ?c w)\<lparr>calls := calls (remote ?c w) @ cs\<rparr>"
          and rest: "\<forall>w'. ListRecords_loop cl d (opt\<lparr>Page := p + 1\<rparr>) (acc @ recs) w' =
                        Some (fst y, w'\<lparr>calls := calls w' @ cs\<rparr>)"
          by blast
        have "\<forall>w'. ListRecords_loop cl d opt acc w' = Some (fst y, w'\<lparr>calls := calls w' @ ?c # cs\<rparr>)"
          by (subst ListRecords_loop.simps)
             (simp add: \<open>svc_Records (svc cl) d opt = Inr page\<close> page l Inr rest remote_def)
        with cs show ?thesis by (intro exI[of _ "?c # cs"]) (simp add: remote_def)
      qed
    qed
  qed
qed

section \<open>Properties of the handler\<close>

subsection \<open>Reading the zone state\<close>

lemma getZoneState_calls:
  assumes "getZoneState cl zone w = Some (res, w1)"
  shows "\<exists>cs. cs \<noteq> [] \<and>
           w1 = w\<lparr>requests := requests w @ [(M_LISTRECORDS, 1)], accepts := Suc (accepts w),
                  calls := calls w @ cs\<rparr> \<and>
           (\<forall>w'. getZoneState cl zone w' =
              Some (res, w'\<lparr>requests := requests w' @ [(M_LISTRECORDS, 1)],
                            accepts := Suc (accepts w'), calls := calls w' @ cs\<rparr>))"
proof -
  let ?start = "\<lambda>w. Accept (AddRequests M_LISTRECORDS 1 w)"
  from assms obtain y where
    y: "ListRecords_loop cl (Domain zone) \<lparr>Page = 1, PerPage = 100\<rparr> [] (?start w) = Some y"
    by (auto simp: getZoneState_def ListRecords_def split: option.splits)
  from ListRecords_loop_calls[OF y] obtain cs where
    cs: "cs \<noteq> []" "snd y = (?start w)\<lparr>calls := calls (?start w) @ cs\<rparr>"
    and all: "\<And>w'. ListRecords_loop cl (Domain zone) \<lparr>Page = 1, PerPage = 100\<rparr> [] w' =
                 Some (fst y, w'\<lparr>calls := calls w' @ cs\<rparr>)"
    by blast
  from assms y cs(2) have w1: "w1 = w\<lparr>requests := requests w @ [(M_LISTRECORDS, 1)],
      accepts := Suc (accepts w), calls := calls w @ cs\<rparr>"
    by (cases y; cases "fst y")
       (auto simp: getZoneState_def ListRecords_def Accept_def AddRequests_def)
  have "getZoneState cl zone w' =
      Some (res, w'\<lparr>requests := requests w' @ [(M_LISTRECORDS, 1)],
                    accepts := Suc (accepts w'), calls := calls w' @ cs\<rparr>)" for w'
    using assms y all[of "?start w'"]
    by (cases y; cases "fst y")
       (auto simp: getZoneState_def ListRecords_def Accept_def AddRequests_def)
  with cs(1) w1 show ?thesis by blast
qed

lemma NewHandler_cache:
  assumes "NewHandler env c = Inr h"
  shows "disableZoneStateCaching (cache_config (cache h)) \<and> stateUpdater (cache h) = getZoneState (client h)"
  using assms
  by (auto simp: NewHandler_def NewZoneCache_def CopyWithDisabledZoneStateCache_def
      split: sum.splits)

lemma GetZoneState_disabled:
  assumes "disableZoneStateCaching (cache_config (cache h))"
    and "stateUpdater (cache h) = getZoneState (client h)"
  shows "GetZoneState h zone w =
     (case getZoneState (client h) zone w of
        None \<Rightarrow> None
      | Some (res, w1) \<Rightarrow> Some (res, h, w1))"
  using assms
  by (simp add: GetZoneState_def ZoneCache_GetZoneState_def split: option.splits)

text \<open>
  C6, as amended: a handler built by \<open>NewHandler\<close> has zone state caching disabled.
  When \<open>GetZoneState\<close> returns, the handler is unchanged and the call has listed the
  zone's records remotely (one token, one metric increment, at least one request); the
  next call for the same zone returns the same result and lists the records again with
  the same requests, a second token and a second metric increment. Two consecutive calls
  are two remote fetches.
\<close>

theorem GetZoneState_fetches_on_every_call:
  assumes "NewHandler env c = Inr h"
    and "GetZoneState h zone w = Some (res1, h1, w1)"
  shows "\<exists>cs. cs \<noteq> [] \<and> h1 = h \<and>
           w1 = w\<lparr>requests := requests w @ [(M_LISTRECORDS, 1)], accepts := Suc (accepts w),
                  calls := calls w @ cs\<rparr> \<and>
           GetZoneState h1 zone w1 =
             Some (res1, h,
                   w1\<lparr>requests := requests w1 @ [(M_LISTRECORDS, 1)],
                      accepts := Suc (accepts w1), calls := calls w1 @ cs\<rparr>)"
proof -
  note d = NewHandler_cache[OF assms(1)]
  note g = GetZoneState_disabled[OF d[THEN conjunct1] d[THEN conjunct2]]
  from assms(2) have h1: "h1 = h" and s: "getZoneState (client h) zone w = Some (res1, w1)"
    by (auto simp: g split: option.splits)
  from getZoneState_calls[OF s] obtain cs where
    cs: "cs \<noteq> []"
      "w1 = w\<lparr>requests := requests w @ [(M_LISTRECORDS, 1)], accepts := Suc (accepts w),
              calls := calls w @ cs\<rparr>"
    and again: "\<And>w'. getZoneState (client h) zone w' =
              Some (res1, w'\<lparr>requests := requests w' @ [(M_LISTRECORDS, 1)],
                            accepts := Suc (accepts w'), calls := calls w' @ cs\<rparr>)"
    by blast
  have "GetZoneState h1 zone w1 =
             Some (res1, h,
                   w1\<lparr>requests := requests w1 @ [(M_LISTRECORDS, 1)],
                      accepts := Suc (accepts w1), calls := calls w1 @ cs\<rparr>)"
    by (simp add: h1 g again)
  with cs h1 show ?thesis by blast
qed

subsection \<open>The zone state keeps the listed TTLs\<close>

lemma getZoneState_records_index:
  "state_records (getZoneState_records d recs st) = state_records st @ map (\<lambda>r. toRecord r d) recs"
  by (induction recs arbitrary: st) (simp_all add: AddRecord_def)

lemma GetTTL_toRecord: "GetTTL (toRecord r key) = DomainRecord.TTL r"
  by (simp add: toRecord_def)

lemma merge_record_cons:
  "merge_record r (s # sets) =
     (if set_key s = record_key r
      then s\<lparr>set_ttl := (if GetTTL r <s set_ttl s then GetTTL r else set_ttl s),
             set_values := set_values s @ [(GetValue r, GetTTL r)]\<rparr> # sets
      else s # merge_record r sets)"
  by (auto simp: set_key_def record_key_def)

lemma set_key_update:
  "set_key (s\<lparr>set_ttl := t, set_values := vs\<rparr>) = set_key s"
  by (simp add: set_key_def)

lemma merge_record_keys:
  "set_key ` set (merge_record r sets) = insert (record_key r) (set_key ` set sets)"
  by (induction sets) (auto simp: merge_record_cons set_key_update set_key_def record_key_def simp del: merge_record.simps(2))

lemma merge_record_distinct:
  "distinct (map set_key sets) \<Longrightarrow> distinct (map set_key (merge_record r sets))"
proof (induction sets)
  case Nil
  then show ?case by simp
next
  case (Cons s sets)
  show ?case
  proof (cases "set_key s = record_key r")
    case True
    with Cons.prems show ?thesis
      by (simp add: merge_record_cons set_key_update del: merge_record.simps(2))
  next
    case False
    have "set_key s \<notin> set_key ` set (merge_record r sets)"
      using Cons.prems False unfolding merge_record_keys by auto
    with Cons False show ?thesis
      by (simp add: merge_record_cons del: merge_record.simps(2))
  qed
qed

lemma lowest_single: "lowest t [t]"
  by (simp add: lowest_def)

lemma lowest_snoc:
  "lowest m ts \<Longrightarrow> lowest (if t <s m then t else m) (ts @ [t])"
  by (auto simp: lowest_def list_all_iff word_sless_alt word_sle_eq)

lemma merge_record_sets:
  "distinct (map set_key sets) \<Longrightarrow> list_all (set_of_records rs) sets \<Longrightarrow>
   (record_key r \<in> set (map record_key rs) \<longrightarrow> record_key r \<in> set (map set_key sets)) \<Longrightarrow>
   list_all (set_of_records (rs @ [r])) (merge_record r sets)"
proof (induction sets)
  case Nil
  from Nil.prems(3) have "record_key r \<notin> record_key ` set rs"
    by simp
  then have "\<forall>x\<in>set rs. record_key x \<noteq> record_key r"
    by (metis imageI)
  then have "filter (\<lambda>x. record_key x = record_key r) rs = []"
    by (simp add: filter_empty_conv)
  then show ?case
    by (simp add: set_of_records_def set_key_def record_key_def lowest_single)
next
  case (Cons s sets)
  show ?case
  proof (cases "set_key s = record_key r")
    case True
    from Cons.prems(2) have s: "set_of_records rs s" and rest: "list_all (set_of_records rs) sets"
      by simp_all
    let ?s = "s\<lparr>set_ttl := (if GetTTL r <s set_ttl s then GetTTL r else set_ttl s),
           set_values := set_values s @ [(GetValue r, GetTTL r)]\<rparr>"
    from s have v: "set_values s =
        map (\<lambda>r. (GetValue r, GetTTL r)) (filter (\<lambda>x. record_key x = set_key s) rs)"
      and l: "lowest (set_ttl s) (map snd (set_values s))"
      unfolding set_of_records_def by blast+
    have k: "set_key ?s = set_key s" by (rule set_key_update)
    from True have f: "filter (\<lambda>x. record_key x = set_key s) (rs @ [r]) =
        filter (\<lambda>x. record_key x = set_key s) rs @ [r]"
      by simp
    have v': "set_values ?s =
        map (\<lambda>r. (GetValue r, GetTTL r)) (filter (\<lambda>x. record_key x = set_key ?s) (rs @ [r]))"
      unfolding k f by (simp add: v)
    from lowest_snoc[OF l, of "GetTTL r"] have l': "lowest (set_ttl ?s) (map snd (set_values ?s))"
      by simp
    from v' l' have s': "set_of_records (rs @ [r]) ?s"
      unfolding set_of_records_def by (rule conjI)
    have "list_all (set_of_records (rs @ [r])) sets"
      unfolding list_all_iff
    proof
      fix s' assume m: "s' \<in> set sets"
      from Cons.prems(1) have "set_key s \<notin> set_key ` set sets" by simp
      with m True have "set_key s' \<noteq> record_key r" by (metis imageI)
      moreover from rest m have "set_of_records rs s'" by (simp add: list_all_iff)
      ultimately show "set_of_records (rs @ [r]) s'"
        by (auto simp: set_of_records_def)
    qed
    with s' True show ?thesis
      by (simp add: merge_record_cons del: merge_record.simps(2))
  next
    case False
    from Cons.prems(2) have s: "set_of_records rs s" and rest: "list_all (set_of_records rs) sets"
      by simp_all
    from s False have s': "set_of_records (rs @ [r]) s"
      by (auto simp: set_of_records_def)
    from Cons.prems(3) False
    have "record_key r \<in> set (map record_key rs) \<longrightarrow> record_key r \<in> set (map set_key sets)"
      by auto
    from Cons.IH[OF _ rest this] Cons.prems(1)
    have "list_all (set_of_records (rs @ [r])) (merge_record r sets)" by simp
    with s' False show ?thesis
      by (simp add: merge_record_cons del: merge_record.simps(2))
  qed
qed

lemma merge_record_aggregates:
  "aggregates rs sets \<Longrightarrow> aggregates (rs @ [r]) (merge_record r sets)"
  unfolding aggregates_def
  using merge_record_distinct[of sets r] merge_record_sets[of sets rs r]
  by (simp add: merge_record_keys)

lemma build_sets_aggregates:
  "aggregates rs sets \<Longrightarrow> aggregates (rs @ rs') (build_sets rs' sets)"
proof (induction rs' arbitrary: rs sets)
  case Nil
  then show ?case by simp
next
  case (Cons r rs')
  from Cons.IH[OF merge_record_aggregates[OF Cons.prems, of r]] show ?case by simp
qed

lemma CalculateDNSSets_aggregates:
  "aggregates (filter (\<lambda>r. \<not> is_forwarded r) (state_records (CalculateDNSSets st)))
     (state_sets (CalculateDNSSets st))"
  using build_sets_aggregates[of "[]" "[]" "filter (\<lambda>r. \<not> is_forwarded r) (state_records st)"]
  by (simp add: CalculateDNSSets_def aggregates_def)

text \<open>
  C9: the floor of 30 seconds is applied to the payload only. A record built by
  \<open>NewRecord\<close> with TTL \<open>t\<close> has TTL \<open>t\<close>, also when \<open>t\<close> is below 30, while the
  payload built from it has the floored TTL. The zone state built from the listed
  records has, in its index, the listed records normalized under the zone's domain, in
  order and with the listed TTLs; and its record sets are the aggregation of the
  records that are not forwarded subdomains: one set per key, holding the (value, TTL)
  pairs of the records with that key with the TTLs as listed, and with the lowest of
  them as the set's TTL.
\<close>

theorem floor_only_on_payload:
  "GetTTL (NewRecord fqdn rtype val zone' t) = t \<and>
   DomainRecordEditRequest.TTL (createRecordRequest (NewRecord fqdn rtype val zone' t)) =
     (if t <s 30 then 30 else t) \<and>
   (ListRecords cl (Domain zone) w = Some (Inr recs, w1) \<longrightarrow>
      (\<exists>st. getZoneState cl zone w = Some (Inr st, w1) \<and>
            state_records st = map (\<lambda>r. toRecord r (Domain zone)) recs \<and>
            map GetTTL (state_records st) = map DomainRecord.TTL recs \<and>
            aggregates (filter (\<lambda>r. \<not> is_forwarded r) (state_records st)) (state_sets st)))"
proof (intro conjI impI)
  show "GetTTL (NewRecord fqdn rtype val zone' t) = t"
    by (simp add: NewRecord_def GetTTL_toRecord)
  show "DomainRecordEditRequest.TTL (createRecordRequest (NewRecord fqdn rtype val zone' t)) =
     (if t <s 30 then 30 else t)"
    by (simp add: NewRecord_def GetTTL_toRecord createRecordRequest_TTL)
next
  assume l: "ListRecords cl (Domain zone) w = Some (Inr recs, w1)"
  let ?st = "CalculateDNSSets (getZoneState_records (Domain zone) recs NewState)"
  from l have g: "getZoneState cl zone w = Some (Inr ?st, w1)"
    by (simp add: getZoneState_def)
  have r: "state_records ?st = map (\<lambda>r. toRecord r (Domain zone)) recs"
    by (simp add: CalculateDNSSets_def getZoneState_records_index NewState_def)
  have t: "map GetTTL (state_records ?st) = map DomainRecord.TTL recs"
    by (simp add: r GetTTL_toRecord comp_def)
  have a: "aggregates (filter (\<lambda>r. \<not> is_forwarded r) (state_records ?st)) (state_sets ?st)"
    by (rule CalculateDNSSets_aggregates)
  from g r t a
  show "\<exists>st. getZoneState cl zone w = Some (Inr st, w1) \<and>
            state_records st = map (\<lambda>r. toRecord r (Domain zone)) recs \<and>
            map GetTTL (state_records st) = map DomainRecord.TTL recs \<and>
            aggregates (filter (\<lambda>r. \<not> is_forwarded r) (state_records st)) (state_sets st)"
    by blast
qed

subsection \<open>Executing change requests\<close>

lemma apply_request_result:
  "fst (apply_request cl req w) = fst (apply_request cl req w')"
  by (simp add: apply_request_def CreateRecord_def UpdateRecord_def DeleteRecord_def Let_def
      split: operation.splits option.splits sum.splits)

lemma applied_snoc:
  "applied cl (reqs @ [req]) w = snd (apply_request cl req (applied cl reqs w))"
  by (simp add: applied_def)

lemma execute_from_prefix:
  "list_all (\<lambda>req. fst (apply_request cl req w0) = None) pre \<Longrightarrow>
   execute_from cl n (pre @ rest) w = execute_from cl (n + length pre) rest (applied cl pre w)"
proof (induction pre arbitrary: n w)
  case Nil
  then show ?case by (simp add: applied_def)
next
  case (Cons req pre)
  from Cons.prems have "fst (apply_request cl req w) = None"
    using apply_request_result[of cl req w w0] by simp
  then obtain w1 where a: "apply_request cl req w = (None, w1)"
    by (cases "apply_request cl req w") simp
  from Cons.prems have "list_all (\<lambda>req. fst (apply_request cl req w0) = None) pre" by simp
  from Cons.IH[OF this, of "Suc n" w1] a show ?case
    by (simp add: applied_def)
qed

text \<open>
  C7: \<open>ExecuteRequests\<close> applies the requests in the order of the list. When every
  request succeeds there is no error and the world is the one after all client
  operations in order. When the requests \<open>pre\<close> succeed and the next request \<open>req\<close>
  fails with \<open>err\<close>, the one error returned names \<open>req\<close>'s operation and record, the
  cause \<open>err\<close> and the number of requests that succeeded; the world is the one after
  the operations of \<open>pre\<close> and \<open>req\<close>: the requests after \<open>req\<close> are not attempted and
  nothing done for \<open>pre\<close> is undone.
\<close>

theorem requests_in_order_until_first_failure:
  "(list_all (\<lambda>req. fst (apply_request (client h) req w) = None) reqs \<longrightarrow>
      fst (ExecuteRequests h zone state reqs w) = None \<and>
      snd (snd (ExecuteRequests h zone state reqs w)) = applied (client h) reqs w) \<and>
   (list_all (\<lambda>req. fst (apply_request (client h) req w) = None) pre \<and>
    fst (apply_request (client h) req w) = Some err \<longrightarrow>
      fst (ExecuteRequests h zone state (pre @ req # post) w) =
        Some \<lparr>succeeded = length pre, failed_operation = Action req,
               failed_record = target req, cause = err\<rparr> \<and>
      snd (snd (ExecuteRequests h zone state (pre @ req # post) w)) =
        applied (client h) (pre @ [req]) w)"
proof (intro conjI impI)
  assume ok: "list_all (\<lambda>req. fst (apply_request (client h) req w) = None) reqs"
  from execute_from_prefix[OF ok, of 0 "[]" w]
  have e: "execute_from (client h) 0 reqs w = (None, applied (client h) reqs w)" by simp
  show "fst (ExecuteRequests h zone state reqs w) = None"
    by (simp add: ExecuteRequests_def raw_ExecuteRequests_def e)
  show "snd (snd (ExecuteRequests h zone state reqs w)) = applied (client h) reqs w"
    by (simp add: ExecuteRequests_def raw_ExecuteRequests_def e)
next
  assume a: "list_all (\<lambda>req. fst (apply_request (client h) req w) = None) pre \<and>
    fst (apply_request (client h) req w) = Some err"
  then have ok: "list_all (\<lambda>req. fst (apply_request (client h) req w) = None) pre" by simp
  from a have "fst (apply_request (client h) req (applied (client h) pre w)) = Some err"
    using apply_request_result[of "client h" req "applied (client h) pre w" w] by simp
  then have f: "apply_request (client h) req (applied (client h) pre w) =
      (Some err, applied (client h) (pre @ [req]) w)"
    by (cases "apply_request (client h) req (applied (client h) pre w)") (simp add: applied_snoc)
  from execute_from_prefix[OF ok, of 0 "req # post" w] f
  have e: "execute_from (client h) 0 (pre @ req # post) w =
      (Some \<lparr>succeeded = length pre, failed_operation = Action req,
               failed_record = target req, cause = err\<rparr>, applied (client h) (pre @ [req]) w)"
    by simp
  show "fst (ExecuteRequests h zone state (pre @ req # post) w) =
        Some \<lparr>succeeded = length pre, failed_operation = Action req,
               failed_record = target req, cause = err\<rparr>"
    by (simp add: ExecuteRequests_def raw_ExecuteRequests_def e)
  show "snd (snd (ExecuteRequests h zone state (pre @ req # post) w)) =
        applied (client h) (pre @ [req]) w"
    by (simp add: ExecuteRequests_def raw_ExecuteRequests_def e)
qed

section \<open>The example service\<close>

lemma ex_serves_domains:
  "serves_pages (svc_List (svc ex_client)) 1
     [[\<lparr>Domain.Name = ''example.com''\<rparr>], [\<lparr>Domain.Name = ''example.org''\<rparr>]]"
  by (simp add: ex_client_def ex_svc_def ex_List_def ex_links_def continues_def last_page_def)

lemma ex_serves_com:
  "serves_pages (svc_Records (svc ex_client) ''example.com'') 1 [[ex_record_a], [ex_record_ns]]"
  by (simp add: ex_client_def ex_svc_def ex_Records_def ex_links_def continues_def last_page_def)

lemma ex_serves_org:
  "serves_pages (svc_Records (svc ex_client) ''example.org'') 1 [[ex_record_org]]"
  by (simp add: ex_client_def ex_svc_def ex_Records_def ex_links_def continues_def last_page_def)

lemma page_requests_2:
  "page_requests 1 (Suc 0) = [\<lparr>Page = 1, PerPage = 100\<rparr>]"
  "page_requests 1 (Suc (Suc 0)) = [\<lparr>Page = 1, PerPage = 100\<rparr>, \<lparr>Page = 2, PerPage = 100\<rparr>]"
  by simp_all

lemma ex_ListDomains:
  "ListDomains ex_client w =
     Some (Inr [\<lparr>Domain.Name = ''example.com''\<rparr>, \<lparr>Domain.Name = ''example.org''\<rparr>],
           w\<lparr>requests := requests w @ [(M_LISTZONES, 1)], accepts := Suc (accepts w),
             calls := calls w @ [CallList \<lparr>Page = 1, PerPage = 100\<rparr>,
                                 CallList \<lparr>Page = 2, PerPage = 100\<rparr>]\<rparr>)"
  using ListDomains_serves[OF ex_serves_domains, of w] by simp

lemma ex_ListRecords_com:
  "ListRecords ex_client ''example.com'' w =
     Some (Inr [ex_record_a, ex_record_ns],
           w\<lparr>requests := requests w @ [(M_LISTRECORDS, 1)], accepts := Suc (accepts w),
             calls := calls w @ [CallRecords ''example.com'' \<lparr>Page = 1, PerPage = 100\<rparr>,
                                 CallRecords ''example.com'' \<lparr>Page = 2, PerPage = 100\<rparr>]\<rparr>)"
  using ListRecords_serves[OF ex_serves_com, of w] by simp

lemma ex_ListRecords_org:
  "ListRecords ex_client ''example.org'' w =
     Some (Inr [ex_record_org],
           w\<lparr>requests := requests w @ [(M_LISTRECORDS, 1)], accepts := Suc (accepts w),
             calls := calls w @ [CallRecords ''example.org'' \<lparr>Page = 1, PerPage = 100\<rparr>]\<rparr>)"
  using ListRecords_serves[OF ex_serves_org, of w] by simp

lemma ex_NewHandler: "NewHandler ex_NewFromToken ex_config = Inr ex_handler"
  by (simp add: NewHandler_def ex_config_def ex_handler_def NewZoneCache_def
      CopyWithDisabledZoneStateCache_def NewDNSClient_def ex_NewFromToken_def ex_client_def)

lemma ex_getZoneState:
  "getZoneState ex_client ex_zone w =
     Some (Inr ex_state,
           w\<lparr>requests := requests w @ [(M_LISTRECORDS, 1)], accepts := Suc (accepts w),
             calls := calls w @ [CallRecords ''example.com'' \<lparr>Page = 1, PerPage = 100\<rparr>,
                                 CallRecords ''example.com'' \<lparr>Page = 2, PerPage = 100\<rparr>]\<rparr>)"
  by (simp add: getZoneState_def ex_zone_def NewDNSHostedZone_def ex_ListRecords_com
      CalculateDNSSets_def NewState_def AddRecord_def ex_state_def toRecord_def
      ex_record_a_def ex_record_ns_def is_forwarded_def RS_NS_def)

lemma ex_GetZoneState:
  "GetZoneState ex_handler ex_zone w =
     Some (Inr ex_state, ex_handler,
           w\<lparr>requests := requests w @ [(M_LISTRECORDS, 1)], accepts := Suc (accepts w),
             calls := calls w @ [CallRecords ''example.com'' \<lparr>Page = 1, PerPage = 100\<rparr>,
                                 CallRecords ''example.com'' \<lparr>Page = 2, PerPage = 100\<rparr>]\<rparr>)"
proof -
  have "disableZoneStateCaching (cache_config (cache ex_handler))"
    and "stateUpdater (cache ex_handler) = getZoneState (client ex_handler)"
    by (simp_all add: ex_handler_def)
  from GetZoneState_disabled[OF this] show ?thesis
    by (simp add: ex_getZoneState ex_handler_def)
qed

lemma ex_Atoi:
  "Atoi ''12'' = Inr 12" "Atoi ''7'' = Inr 7" "Atoi ''9'' = Inr 9" "Atoi ''5'' = Inr 5"
  "Atoi ''abc'' = Inl (NumError ''Atoi'' ''abc'' ErrSyntax)"
  "Atoi ''12a'' = Inl (NumError ''Atoi'' ''12a'' ErrSyntax)"
  "Atoi '''' = Inl (NumError ''Atoi'' '''' ErrSyntax)"
  "Atoi ''0'' = Inr 0"
  by (simp_all add: Atoi_def ParseInt_def ParseUint_def is_digit_def maxUint64_def)

lemma ex_apply:
  "fst (apply_request ex_client (ex_create ''a.example.com'') w) = None"
  "fst (apply_request ex_client (ex_delete ''5'' ''example.com'') w) = None"
  "fst (apply_request ex_client (ex_update ''7'' ''b.example.com'') w) =
     Some (Errorf ''failed to update record of type %q for DNS name %q and value %q: %s''
            [Str ''A'', Str ''b.example.com'', Str ''1.2.3.4'', Err (ErrorString ''not found'')])"
  by (simp_all add: apply_request_def ex_create_def ex_delete_def ex_update_def NewRecord_def ex_zone_def NewDNSHostedZone_def
      toRecord_def ex_record_def CreateRecord_def UpdateRecord_def DeleteRecord_def Let_def
      ex_Atoi ex_client_def ex_svc_def createRecordRequest_def)

subsection \<open>Zone enumeration\<close>

text \<open>
  The inner loop of \<open>getZones\<close> appends the zone's own delegations to the list it is
  given, which for every zone but the first holds the delegations of the zones before.
\<close>

lemma getZones_forwarded_appends:
  "getZones_forwarded d records forwarded =
     forwarded @
     map DomainRecord.Name
       (filter (\<lambda>r. DomainRecord.Type r = RS_NS \<and> DomainRecord.Name r \<noteq> Domain.Name d) records)"
  by (induction records arbitrary: forwarded) simp_all

text \<open>
  C1 asks that each zone's descriptor lists the delegations of that zone only. On the
  example service \<open>getZones\<close> returns \<open>example.org\<close> with the forwarded subdomain
  \<open>sub.example.com\<close>, a delegation of \<open>example.com\<close>: the records of \<open>example.org\<close>
  alone give no forwarded subdomain. The list \<open>forwarded\<close> is not emptied between
  zones.
\<close>

theorem getZones_forwarded_accumulates:
  "getZones ex_client ex_world =
     Some (Inr [\<lparr>ProviderType = ProviderTypeDigitalOcean, Id = ''example.com'',
                  Domain = ''example.com'', Key = ''example.com'',
                  ForwardedDomains = [''sub.example.com''], IsPrivate = False\<rparr>,
                \<lparr>ProviderType = ProviderTypeDigitalOcean, Id = ''example.org'',
                  Domain = ''example.org'', Key = ''example.org'',
                  ForwardedDomains = [''sub.example.com''], IsPrivate = False\<rparr>],
           \<lparr>requests = [(M_LISTZONES, 1), (M_LISTRECORDS, 1), (M_LISTRECORDS, 1)],
             accepts = 3,
             calls = [CallList \<lparr>Page = 1, PerPage = 100\<rparr>,
                      CallList \<lparr>Page = 2, PerPage = 100\<rparr>,
                      CallRecords ''example.com'' \<lparr>Page = 1, PerPage = 100\<rparr>,
                      CallRecords ''example.com'' \<lparr>Page = 2, PerPage = 100\<rparr>,
                      CallRecords ''example.org'' \<lparr>Page = 1, PerPage = 100\<rparr>]\<rparr>) \<and>
   getZones_forwarded \<lparr>Domain.Name = ''example.org''\<rparr> [ex_record_org] [] = []"
  by (simp add: getZones_def ex_ListDomains ex_ListRecords_com ex_ListRecords_org
      NewDNSHostedZone_def RS_NS_def ex_record_a_def ex_record_ns_def ex_record_org_def
      ex_world_def)

subsection \<open>The statements at the example service\<close>

text \<open>
  C6 as stated fails on the handler \<open>NewHandler\<close> builds for the example service: two
  consecutive calls of \<open>GetZoneState\<close> for \<open>example.com\<close> return the same state and
  list the records twice (two tokens, two metric increments, the two pages requested
  twice).
\<close>

theorem GetZoneState_twice_fetches_twice:
  "NewHandler ex_NewFromToken ex_config = Inr ex_handler \<and>
   GetZoneState_twice ex_handler ex_zone ex_world =
     Some (Inr ex_state, Inr ex_state,
           \<lparr>requests = [(M_LISTRECORDS, 1), (M_LISTRECORDS, 1)], accepts = 2,
             calls = [CallRecords ''example.com'' \<lparr>Page = 1, PerPage = 100\<rparr>,
                      CallRecords ''example.com'' \<lparr>Page = 2, PerPage = 100\<rparr>,
                      CallRecords ''example.com'' \<lparr>Page = 1, PerPage = 100\<rparr>,
                      CallRecords ''example.com'' \<lparr>Page = 2, PerPage = 100\<rparr>]\<rparr>)"
  by (simp add: ex_NewHandler GetZoneState_twice_def ex_GetZoneState ex_world_def)

text \<open>C6 as amended, on the same handler.\<close>

theorem GetZoneState_fetches_on_every_call_witness:
  "NewHandler ex_NewFromToken ex_config = Inr ex_handler \<and>
   GetZoneState ex_handler ex_zone ex_world =
     Some (Inr ex_state, ex_handler,
           \<lparr>requests = [(M_LISTRECORDS, 1)], accepts = 1,
            calls = [CallRecords ''example.com'' \<lparr>Page = 1, PerPage = 100\<rparr>,
                     CallRecords ''example.com'' \<lparr>Page = 2, PerPage = 100\<rparr>]\<rparr>) \<and>
   GetZoneState ex_handler ex_zone
       \<lparr>requests = [(M_LISTRECORDS, 1)], accepts = 1,
        calls = [CallRecords ''example.com'' \<lparr>Page = 1, PerPage = 100\<rparr>,
                 CallRecords ''example.com'' \<lparr>Page = 2, PerPage = 100\<rparr>]\<rparr> =
     Some (Inr ex_state, ex_handler,
           \<lparr>requests = [(M_LISTRECORDS, 1), (M_LISTRECORDS, 1)], accepts = 2,
            calls = [CallRecords ''example.com'' \<lparr>Page = 1, PerPage = 100\<rparr>,
                     CallRecords ''example.com'' \<lparr>Page = 2, PerPage = 100\<rparr>,
                     CallRecords ''example.com'' \<lparr>Page = 1, PerPage = 100\<rparr>,
                     CallRecords ''example.com'' \<lparr>Page = 2, PerPage = 100\<rparr>]\<rparr>)"
proof -
  let ?w1 = "\<lparr>requests = [(M_LISTRECORDS, 1)], accepts = 1,
            calls = [CallRecords ''example.com'' \<lparr>Page = 1, PerPage = 100\<rparr>,
                     CallRecords ''example.com'' \<lparr>Page = 2, PerPage = 100\<rparr>]\<rparr>"
  have n: "NewHandler ex_NewFromToken ex_config = Inr ex_handler" by (rule ex_NewHandler)
  have g: "GetZoneState ex_handler ex_zone ex_world = Some (Inr ex_state, ex_handler, ?w1)"
    by (simp add: ex_GetZoneState ex_world_def)
  from GetZoneState_fetches_on_every_call[OF n g] obtain cs where
    w1: "?w1 = ex_world\<lparr>requests := requests ex_world @ [(M_LISTRECORDS, 1)],
                 accepts := Suc (accepts ex_world), calls := calls ex_world @ cs\<rparr>"
    and again: "GetZoneState ex_handler ex_zone ?w1 =
             Some (Inr ex_state, ex_handler,
                   ?w1\<lparr>requests := requests ?w1 @ [(M_LISTRECORDS, 1)],
                      accepts := Suc (accepts ?w1), calls := calls ?w1 @ cs\<rparr>)"
    by blast
  from w1 have "cs = [CallRecords ''example.com'' \<lparr>Page = 1, PerPage = 100\<rparr>,
                     CallRecords ''example.com'' \<lparr>Page = 2, PerPage = 100\<rparr>]"
    by (simp add: ex_world_def)
  with n g again show ?thesis by simp
qed

text \<open>
  C2 at a record with TTL 10, whose payload has TTL 30 for create and update, and at a
  record with TTL 3600, whose payload keeps it.
\<close>

theorem submitted_TTL_is_floored_witness:
  "Atoi (GetId (ex_record ''12'' ''foo.example.com'' 10)) = Inr 12 \<and>
   GetTTL (ex_record ''12'' ''foo.example.com'' 10) <s 30 \<and>
   snd (CreateRecord ex_client (ex_record ''12'' ''foo.example.com'' 10) ex_world) =
     \<lparr>requests = [(M_CREATERECORDS, 1)], accepts = 1,
      calls = [CallCreateRecord ''example.com''
                 \<lparr>DomainRecordEditRequest.Type = ''A'',
                  DomainRecordEditRequest.Name = ''foo.example.com'',
                  DomainRecordEditRequest.Data = ''1.2.3.4'',
                  DomainRecordEditRequest.TTL = 30\<rparr>]\<rparr> \<and>
   fst (CreateRecord ex_client (ex_record ''12'' ''foo.example.com'' 10) ex_world) = None \<and>
   snd (UpdateRecord ex_client (ex_record ''12'' ''foo.example.com'' 10) ex_world) =
     \<lparr>requests = [(M_UPDATERECORDS, 1)], accepts = 1,
      calls = [CallEditRecord ''example.com'' 12
                 \<lparr>DomainRecordEditRequest.Type = ''A'',
                  DomainRecordEditRequest.Name = ''foo.example.com'',
                  DomainRecordEditRequest.Data = ''1.2.3.4'',
                  DomainRecordEditRequest.TTL = 30\<rparr>]\<rparr> \<and>
   30 \<le>s GetTTL (ex_record ''12'' ''foo.example.com'' 3600) \<and>
   DomainRecordEditRequest.TTL (createRecordRequest (ex_record ''12'' ''foo.example.com'' 3600)) = 3600"
  using submitted_TTL_is_floored[of ex_client "ex_record ''12'' ''foo.example.com'' 10" ex_world 12]
    submitted_TTL_is_floored[of ex_client "ex_record ''12'' ''foo.example.com'' 3600" ex_world 12]
  by (simp add: ex_record_def ex_Atoi createRecordRequest_def remote_def Accept_def AddRequests_def
      ex_world_def ex_client_def ex_svc_def word_sless_alt word_sle_eq)

text \<open>
  C3 at the example service, two pages of domains and two pages of records, and at the
  failing service, whose second page of domains and first page of records fail.
\<close>

theorem list_pages_concatenated_witness:
  "serves_pages (svc_List (svc ex_client)) 1
     [[\<lparr>Domain.Name = ''example.com''\<rparr>], [\<lparr>Domain.Name = ''example.org''\<rparr>]] \<and>
   ListDomains ex_client ex_world =
     Some (Inr [\<lparr>Domain.Name = ''example.com''\<rparr>, \<lparr>Domain.Name = ''example.org''\<rparr>],
           \<lparr>requests = [(M_LISTZONES, 1)], accepts = 1,
            calls = [CallList \<lparr>Page = 1, PerPage = 100\<rparr>, CallList \<lparr>Page = 2, PerPage = 100\<rparr>]\<rparr>) \<and>
   fails_after (svc_List (svc ex_failing_client)) 1 [[\<lparr>Domain.Name = ''example.com''\<rparr>]]
     (ErrorString ''too many requests'') \<and>
   ListDomains ex_failing_client ex_world =
     Some (Inl (ErrorString ''too many requests''),
           \<lparr>requests = [(M_LISTZONES, 1)], accepts = 1,
            calls = [CallList \<lparr>Page = 1, PerPage = 100\<rparr>, CallList \<lparr>Page = 2, PerPage = 100\<rparr>]\<rparr>) \<and>
   serves_pages (svc_Records (svc ex_client) ''example.com'') 1 [[ex_record_a], [ex_record_ns]] \<and>
   ListRecords ex_client ''example.com'' ex_world =
     Some (Inr [ex_record_a, ex_record_ns],
           \<lparr>requests = [(M_LISTRECORDS, 1)], accepts = 1,
            calls = [CallRecords ''example.com'' \<lparr>Page = 1, PerPage = 100\<rparr>,
                     CallRecords ''example.com'' \<lparr>Page = 2, PerPage = 100\<rparr>]\<rparr>) \<and>
   fails_after (svc_Records (svc ex_failing_client) ''example.com'') 1 []
     (ErrorString ''too many requests'') \<and>
   ListRecords ex_failing_client ''example.com'' ex_world =
     Some (Inl (ErrorString ''too many requests''),
           \<lparr>requests = [(M_LISTRECORDS, 1)], accepts = 1,
            calls = [CallRecords ''example.com'' \<lparr>Page = 1, PerPage = 100\<rparr>]\<rparr>)"
proof -
  have d: "serves_pages (svc_List (svc ex_client)) 1
     [[\<lparr>Domain.Name = ''example.com''\<rparr>], [\<lparr>Domain.Name = ''example.org''\<rparr>]]"
    by (rule ex_serves_domains)
  have r: "serves_pages (svc_Records (svc ex_client) ''example.com'') 1 [[ex_record_a], [ex_record_ns]]"
    by (rule ex_serves_com)
  have fd: "fails_after (svc_List (svc ex_failing_client)) 1 [[\<lparr>Domain.Name = ''example.com''\<rparr>]]
     (ErrorString ''too many requests'')"
    by (simp add: ex_failing_client_def ex_svc_def ex_List_def ex_links_def continues_def)
  have fr: "fails_after (svc_Records (svc ex_failing_client) ''example.com'') 1 []
     (ErrorString ''too many requests'')"
    by (simp add: ex_failing_client_def ex_svc_def)
  from d r fd fr
    list_pages_concatenated[of ex_client
      "[[\<lparr>Domain.Name = ''example.com''\<rparr>], [\<lparr>Domain.Name = ''example.org''\<rparr>]]" ex_world
      "[]" "ErrorString ''too many requests''" "''example.com''" "[[ex_record_a], [ex_record_ns]]" "[]"
      "ErrorString ''too many requests''"]
    list_pages_concatenated[of ex_failing_client "[]" ex_world
      "[[\<lparr>Domain.Name = ''example.com''\<rparr>]]" "ErrorString ''too many requests''" "''example.com''"
      "[]" "[]" "ErrorString ''too many requests''"]
  show ?thesis by (simp add: ex_world_def)
qed

text \<open>C4 at the example service: two pages each, one token and one increment each.\<close>

theorem list_one_token_one_metric_witness:
  "ListDomains ex_client ex_world =
     Some (Inr [\<lparr>Domain.Name = ''example.com''\<rparr>, \<lparr>Domain.Name = ''example.org''\<rparr>],
           \<lparr>requests = [(M_LISTZONES, 1)], accepts = 1,
            calls = [CallList \<lparr>Page = 1, PerPage = 100\<rparr>, CallList \<lparr>Page = 2, PerPage = 100\<rparr>]\<rparr>) \<and>
   ListRecords ex_client ''example.com'' ex_world =
     Some (Inr [ex_record_a, ex_record_ns],
           \<lparr>requests = [(M_LISTRECORDS, 1)], accepts = 1,
            calls = [CallRecords ''example.com'' \<lparr>Page = 1, PerPage = 100\<rparr>,
                     CallRecords ''example.com'' \<lparr>Page = 2, PerPage = 100\<rparr>]\<rparr>) \<and>
   accepts \<lparr>requests = [(M_LISTZONES, 1)], accepts = 1,
            calls = [CallList \<lparr>Page = 1, PerPage = 100\<rparr>, CallList \<lparr>Page = 2, PerPage = 100\<rparr>]\<rparr> =
     Suc (accepts ex_world) \<and>
   requests \<lparr>requests = [(M_LISTRECORDS, 1)], accepts = 1,
            calls = [CallRecords ''example.com'' \<lparr>Page = 1, PerPage = 100\<rparr>,
                     CallRecords ''example.com'' \<lparr>Page = 2, PerPage = 100\<rparr>]\<rparr> =
     requests ex_world @ [(M_LISTRECORDS, 1)]"
proof -
  have d: "ListDomains ex_client ex_world =
     Some (Inr [\<lparr>Domain.Name = ''example.com''\<rparr>, \<lparr>Domain.Name = ''example.org''\<rparr>],
           \<lparr>requests = [(M_LISTZONES, 1)], accepts = 1,
            calls = [CallList \<lparr>Page = 1, PerPage = 100\<rparr>, CallList \<lparr>Page = 2, PerPage = 100\<rparr>]\<rparr>)"
    by (simp add: ex_ListDomains ex_world_def)
  have r: "ListRecords ex_client ''example.com'' ex_world =
     Some (Inr [ex_record_a, ex_record_ns],
           \<lparr>requests = [(M_LISTRECORDS, 1)], accepts = 1,
            calls = [CallRecords ''example.com'' \<lparr>Page = 1, PerPage = 100\<rparr>,
                     CallRecords ''example.com'' \<lparr>Page = 2, PerPage = 100\<rparr>]\<rparr>)"
    by (simp add: ex_ListRecords_com ex_world_def)
  from d r list_one_token_one_metric[of ex_client ex_world
      "Inr [\<lparr>Domain.Name = ''example.com''\<rparr>, \<lparr>Domain.Name = ''example.org''\<rparr>]"
      "\<lparr>requests = [(M_LISTZONES, 1)], accepts = 1,
            calls = [CallList \<lparr>Page = 1, PerPage = 100\<rparr>, CallList \<lparr>Page = 2, PerPage = 100\<rparr>]\<rparr>"
      "''example.com''" "Inr [ex_record_a, ex_record_ns]"
      "\<lparr>requests = [(M_LISTRECORDS, 1)], accepts = 1,
            calls = [CallRecords ''example.com'' \<lparr>Page = 1, PerPage = 100\<rparr>,
                     CallRecords ''example.com'' \<lparr>Page = 2, PerPage = 100\<rparr>]\<rparr>"]
  show ?thesis by blast
qed

text \<open>C5 at a record whose identifier is \<open>abc\<close>.\<close>

theorem bad_id_no_remote_call_witness:
  "Atoi (GetId (ex_record ''abc'' ''foo.example.com'' 10)) = Inl (NumError ''Atoi'' ''abc'' ErrSyntax) \<and>
   fst (UpdateRecord ex_client (ex_record ''abc'' ''foo.example.com'' 10) ex_world) =
     Some (Errorf ''failed to convert record ID %q to integer: %s''
            [Str ''abc'', Err (NumError ''Atoi'' ''abc'' ErrSyntax)]) \<and>
   calls (snd (UpdateRecord ex_client (ex_record ''abc'' ''foo.example.com'' 10) ex_world)) = [] \<and>
   fst (DeleteRecord ex_client (ex_record ''abc'' ''foo.example.com'' 10) ex_world) =
     Some (Errorf ''failed to convert ID %q to integer: %s''
            [Str ''abc'', Err (NumError ''Atoi'' ''abc'' ErrSyntax)]) \<and>
   calls (snd (DeleteRecord ex_client (ex_record ''abc'' ''foo.example.com'' 10) ex_world)) = []"
proof -
  have a: "Atoi (GetId (ex_record ''abc'' ''foo.example.com'' 10)) =
      Inl (NumError ''Atoi'' ''abc'' ErrSyntax)"
    by (simp add: ex_record_def ex_Atoi)
  from a bad_id_no_remote_call[OF a, of ex_client ex_world] show ?thesis
    by (simp add: ex_record_def ex_world_def)
qed

text \<open>C10 at a record whose identifier is \<open>12a\<close>.\<close>

theorem bad_id_no_metric_no_token_witness:
  "Atoi (GetId (ex_record ''12a'' ''foo.example.com'' 10)) = Inl (NumError ''Atoi'' ''12a'' ErrSyntax) \<and>
   requests (snd (UpdateRecord ex_client (ex_record ''12a'' ''foo.example.com'' 10) ex_world)) = [] \<and>
   accepts (snd (UpdateRecord ex_client (ex_record ''12a'' ''foo.example.com'' 10) ex_world)) = 0 \<and>
   requests (snd (DeleteRecord ex_client (ex_record ''12a'' ''foo.example.com'' 10) ex_world)) = [] \<and>
   accepts (snd (DeleteRecord ex_client (ex_record ''12a'' ''foo.example.com'' 10) ex_world)) = 0"
proof -
  have a: "Atoi (GetId (ex_record ''12a'' ''foo.example.com'' 10)) =
      Inl (NumError ''Atoi'' ''12a'' ErrSyntax)"
    by (simp add: ex_record_def ex_Atoi)
  from a bad_id_no_metric_no_token[OF a, of ex_client ex_world] show ?thesis
    by (simp add: ex_world_def)
qed

text \<open>
  C7 at a batch of two requests that succeed, and at the batch of a create that
  succeeds, an update of record 7 that the service refuses and a create that is then not
  attempted.
\<close>

theorem requests_in_order_until_first_failure_witness:
  "list_all (\<lambda>req. fst (apply_request (client ex_handler) req ex_world) = None)
     [ex_create ''a.example.com'', ex_delete ''5'' ''example.com''] \<and>
   fst (ExecuteRequests ex_handler ex_zone ex_state
          [ex_create ''a.example.com'', ex_delete ''5'' ''example.com''] ex_world) = None \<and>
   calls (snd (snd (ExecuteRequests ex_handler ex_zone ex_state
          [ex_create ''a.example.com'', ex_delete ''5'' ''example.com''] ex_world))) =
     [CallCreateRecord ''example.com''
        \<lparr>DomainRecordEditRequest.Type = ''A'', DomainRecordEditRequest.Name = ''a.example.com'',
         DomainRecordEditRequest.Data = ''1.2.3.4'', DomainRecordEditRequest.TTL = 30\<rparr>,
      CallDeleteRecord ''example.com'' 5] \<and>
   fst (apply_request (client ex_handler) (ex_update ''7'' ''b.example.com'') ex_world) =
     Some (Errorf ''failed to update record of type %q for DNS name %q and value %q: %s''
            [Str ''A'', Str ''b.example.com'', Str ''1.2.3.4'', Err (ErrorString ''not found'')]) \<and>
   fst (ExecuteRequests ex_handler ex_zone ex_state
          ([ex_create ''a.example.com''] @ ex_update ''7'' ''b.example.com'' #
           [ex_create ''foo.example.com'']) ex_world) =
     Some \<lparr>succeeded = 1, failed_operation = Update,
            failed_record = ex_record ''7'' ''b.example.com'' 10,
            cause = Errorf ''failed to update record of type %q for DNS name %q and value %q: %s''
              [Str ''A'', Str ''b.example.com'', Str ''1.2.3.4'', Err (ErrorString ''not found'')]\<rparr> \<and>
   calls (snd (snd (ExecuteRequests ex_handler ex_zone ex_state
          ([ex_create ''a.example.com''] @ ex_update ''7'' ''b.example.com'' #
           [ex_create ''foo.example.com'']) ex_world))) =
     [CallCreateRecord ''example.com''
        \<lparr>DomainRecordEditRequest.Type = ''A'', DomainRecordEditRequest.Name = ''a.example.com'',
         DomainRecordEditRequest.Data = ''1.2.3.4'', DomainRecordEditRequest.TTL = 30\<rparr>,
      CallEditRecord ''example.com'' 7
        \<lparr>DomainRecordEditRequest.Type = ''A'', DomainRecordEditRequest.Name = ''b.example.com'',
         DomainRecordEditRequest.Data = ''1.2.3.4'', DomainRecordEditRequest.TTL = 30\<rparr>]"
proof -
  have c: "client ex_handler = ex_client" by (simp add: ex_handler_def)
  have a1: "calls (applied ex_client [ex_create ''a.example.com'', ex_delete ''5'' ''example.com''] ex_world) =
     [CallCreateRecord ''example.com''
        \<lparr>DomainRecordEditRequest.Type = ''A'', DomainRecordEditRequest.Name = ''a.example.com'',
         DomainRecordEditRequest.Data = ''1.2.3.4'', DomainRecordEditRequest.TTL = 30\<rparr>,
      CallDeleteRecord ''example.com'' 5]"
    by (simp add: applied_def apply_request_def ex_create_def ex_delete_def NewRecord_def ex_zone_def NewDNSHostedZone_def
      toRecord_def ex_record_def CreateRecord_def DeleteRecord_def Let_def
      ex_Atoi ex_client_def ex_svc_def createRecordRequest_def remote_def Accept_def
      AddRequests_def ex_world_def)
  have a2: "calls (applied ex_client [ex_create ''a.example.com'', ex_update ''7'' ''b.example.com''] ex_world) =
     [CallCreateRecord ''example.com''
        \<lparr>DomainRecordEditRequest.Type = ''A'', DomainRecordEditRequest.Name = ''a.example.com'',
         DomainRecordEditRequest.Data = ''1.2.3.4'', DomainRecordEditRequest.TTL = 30\<rparr>,
      CallEditRecord ''example.com'' 7
        \<lparr>DomainRecordEditRequest.Type = ''A'', DomainRecordEditRequest.Name = ''b.example.com'',
         DomainRecordEditRequest.Data = ''1.2.3.4'', DomainRecordEditRequest.TTL = 30\<rparr>]"
    by (simp add: applied_def apply_request_def ex_create_def ex_update_def NewRecord_def ex_zone_def NewDNSHostedZone_def
      toRecord_def ex_record_def CreateRecord_def UpdateRecord_def Let_def
      ex_Atoi ex_client_def ex_svc_def createRecordRequest_def remote_def Accept_def
      AddRequests_def ex_world_def)
  have t: "target (ex_update ''7'' ''b.example.com'') = ex_record ''7'' ''b.example.com'' 10"
    "Action (ex_update ''7'' ''b.example.com'') = Update"
    by (simp_all add: ex_update_def)
  from requests_in_order_until_first_failure[of ex_handler ex_world
      "[ex_create ''a.example.com'', ex_delete ''5'' ''example.com'']" ex_zone ex_state
      "[ex_create ''a.example.com'']" "ex_update ''7'' ''b.example.com''"
      "Errorf ''failed to update record of type %q for DNS name %q and value %q: %s''
            [Str ''A'', Str ''b.example.com'', Str ''1.2.3.4'', Err (ErrorString ''not found'')]"
      "[ex_create ''foo.example.com'']"]
  show ?thesis
    by (simp add: c ex_apply a1 a2 t)
qed

text \<open>
  C8 at the three operations the example service refuses, with a quoting function that
  puts the string between double quotes.
\<close>

theorem remote_failure_reported_witness:
  "svc_CreateRecord (svc ex_client) (domain (ex_record '''' ''bad.example.com'' 60))
     (createRecordRequest (ex_record '''' ''bad.example.com'' 60)) = Some (ErrorString ''unprocessable'') \<and>
   (\<exists>err. fst (CreateRecord ex_client (ex_record '''' ''bad.example.com'' 60) ex_world) = Some err \<and>
      reports ex_quote err (ex_record '''' ''bad.example.com'' 60) (ErrorString ''unprocessable'')) \<and>
   Atoi (GetId (ex_record ''7'' ''b.example.com'' 60)) = Inr 7 \<and>
   svc_EditRecord (svc ex_client) (domain (ex_record ''7'' ''b.example.com'' 60)) 7
     (createRecordRequest (ex_record ''7'' ''b.example.com'' 60)) = Some (ErrorString ''not found'') \<and>
   (\<exists>err. fst (UpdateRecord ex_client (ex_record ''7'' ''b.example.com'' 60) ex_world) = Some err \<and>
      reports ex_quote err (ex_record ''7'' ''b.example.com'' 60) (ErrorString ''not found'')) \<and>
   Atoi (GetId (ex_record ''9'' ''c.example.com'' 60)) = Inr 9 \<and>
   svc_DeleteRecord (svc ex_client) (domain (ex_record ''9'' ''c.example.com'' 60)) 9 =
     Some (ErrorString ''not found'') \<and>
   (\<exists>err. fst (DeleteRecord ex_client (ex_record ''9'' ''c.example.com'' 60) ex_world) = Some err \<and>
      reports ex_quote err (ex_record ''9'' ''c.example.com'' 60) (ErrorString ''not found''))"
proof -
  have c: "svc_CreateRecord (svc ex_client) (domain (ex_record '''' ''bad.example.com'' 60))
     (createRecordRequest (ex_record '''' ''bad.example.com'' 60)) = Some (ErrorString ''unprocessable'')"
    by (simp add: ex_client_def ex_svc_def createRecordRequest_def ex_record_def)
  have u: "Atoi (GetId (ex_record ''7'' ''b.example.com'' 60)) = Inr 7 \<and>
   svc_EditRecord (svc ex_client) (domain (ex_record ''7'' ''b.example.com'' 60)) 7
     (createRecordRequest (ex_record ''7'' ''b.example.com'' 60)) = Some (ErrorString ''not found'')"
    by (simp add: ex_client_def ex_svc_def ex_record_def ex_Atoi)
  have d: "Atoi (GetId (ex_record ''9'' ''c.example.com'' 60)) = Inr 9 \<and>
   svc_DeleteRecord (svc ex_client) (domain (ex_record ''9'' ''c.example.com'' 60)) 9 =
     Some (ErrorString ''not found'')"
    by (simp add: ex_client_def ex_svc_def ex_record_def ex_Atoi)
  from c u d
    remote_failure_reported[of ex_client "ex_record '''' ''bad.example.com'' 60"
      "ErrorString ''unprocessable''" ex_world ex_quote 7]
    remote_failure_reported[of ex_client "ex_record ''7'' ''b.example.com'' 60"
      "ErrorString ''not found''" ex_world ex_quote 7]
    remote_failure_reported[of ex_client "ex_record ''9'' ''c.example.com'' 60"
      "ErrorString ''not found''" ex_world ex_quote 9]
  show ?thesis by blast
qed

text \<open>
  C9 at the TTL 10 and the zone \<open>example.com\<close>: the record keeps 10 and the payload
  has 30; the zone state has both listed records with the TTLs 10 and 3600, and one
  record set, \<open>example.com\<close> of type A with TTL 10: the delegation of
  \<open>sub.example.com\<close> is a forwarded subdomain and is in no set.
\<close>

theorem floor_only_on_payload_witness:
  "GetTTL (NewRecord ''example.com'' ''A'' ''1.2.3.4'' ex_zone 10) = 10 \<and>
   DomainRecordEditRequest.TTL
     (createRecordRequest (NewRecord ''example.com'' ''A'' ''1.2.3.4'' ex_zone 10)) = 30 \<and>
   ListRecords ex_client (Domain ex_zone) ex_world =
     Some (Inr [ex_record_a, ex_record_ns],
           \<lparr>requests = [(M_LISTRECORDS, 1)], accepts = 1,
            calls = [CallRecords ''example.com'' \<lparr>Page = 1, PerPage = 100\<rparr>,
                     CallRecords ''example.com'' \<lparr>Page = 2, PerPage = 100\<rparr>]\<rparr>) \<and>
   getZoneState ex_client ex_zone ex_world =
     Some (Inr ex_state,
           \<lparr>requests = [(M_LISTRECORDS, 1)], accepts = 1,
            calls = [CallRecords ''example.com'' \<lparr>Page = 1, PerPage = 100\<rparr>,
                     CallRecords ''example.com'' \<lparr>Page = 2, PerPage = 100\<rparr>]\<rparr>) \<and>
   map GetTTL (state_records ex_state) = [10, 3600] \<and>
   filter (\<lambda>r. \<not> is_forwarded r) (state_records ex_state) = [toRecord ex_record_a ''example.com''] \<and>
   state_sets ex_state =
     [\<lparr>set_name = ''example.com'', set_type = ''A'', set_ttl = 10,
       set_values = [(''1.2.3.4'', 10)]\<rparr>] \<and>
   aggregates [toRecord ex_record_a ''example.com''] (state_sets ex_state)"
proof -
  let ?w1 = "\<lparr>requests = [(M_LISTRECORDS, 1)], accepts = 1,
            calls = [CallRecords ''example.com'' \<lparr>Page = 1, PerPage = 100\<rparr>,
                     CallRecords ''example.com'' \<lparr>Page = 2, PerPage = 100\<rparr>]\<rparr>"
  have l: "ListRecords ex_client (Domain ex_zone) ex_world = Some (Inr [ex_record_a, ex_record_ns], ?w1)"
    by (simp add: ex_zone_def NewDNSHostedZone_def ex_ListRecords_com ex_world_def)
  have g: "getZoneState ex_client ex_zone ex_world = Some (Inr ex_state, ?w1)"
    by (simp add: ex_getZoneState ex_world_def)
  have f: "filter (\<lambda>r. \<not> is_forwarded r) (state_records ex_state) =
      [toRecord ex_record_a ''example.com'']"
    by (simp add: ex_state_def toRecord_def ex_record_a_def ex_record_ns_def is_forwarded_def
        RS_NS_def)
  note th = floor_only_on_payload[of "''example.com''" "''A''" "''1.2.3.4''" ex_zone 10
      ex_client ex_zone ex_world "[ex_record_a, ex_record_ns]" ?w1]
  from th have p1: "GetTTL (NewRecord ''example.com'' ''A'' ''1.2.3.4'' ex_zone 10) = 10"
    by blast
  from th have p2: "DomainRecordEditRequest.TTL
       (createRecordRequest (NewRecord ''example.com'' ''A'' ''1.2.3.4'' ex_zone 10)) = 30"
    by (simp add: word_sless_alt)
  from th l obtain st where
    st: "getZoneState ex_client ex_zone ex_world = Some (Inr st, ?w1)"
    and ttls: "map GetTTL (state_records st) = map DomainRecord.TTL [ex_record_a, ex_record_ns]"
    and agg: "aggregates (filter (\<lambda>r. \<not> is_forwarded r) (state_records st)) (state_sets st)"
    by blast
  from st g have e: "st = ex_state" by simp
  from ttls have p3: "map GetTTL (state_records ex_state) = [10, 3600]"
    by (simp add: e ex_record_a_def ex_record_ns_def)
  from agg have p4:
    "aggregates (filter (\<lambda>r. \<not> is_forwarded r) (state_records ex_state)) (state_sets ex_state)"
    by (simp only: e)
  have s: "state_sets ex_state =
     [\<lparr>set_name = ''example.com'', set_type = ''A'', set_ttl = 10,
       set_values = [(''1.2.3.4'', 10)]\<rparr>]"
    by (simp add: ex_state_def)
  from p4 have a: "aggregates [toRecord ex_record_a ''example.com''] (state_sets ex_state)"
    by (simp only: f)
  from l g p1 p2 p3 f s a show ?thesis by blast
qed

end
